theory Spec2Isabelle
  imports Main "HOL-Library.Sublist"
begin

section \<open>Data model of \<open>personalizer_satori.go\<close>\<close>

text \<open>
  The system types of the \<open>switch\<close> at the top of \<open>GetValue\<close>. The Go type is an
  integer enumeration whose declaration is not part of the file; every value the
  \<open>switch\<close> does not name falls into its \<open>default\<close> branch and is kept here as
  \<open>SystemTypeOther n\<close>.
\<close>

datatype SystemType =
    SystemTypeAchievements
  | SystemTypeBase
  | SystemTypeEconomy
  | SystemTypeEnergy
  | SystemTypeInventory
  | SystemTypeLeaderboards
  | SystemTypeTeams
  | SystemTypeTutorials
  | SystemTypeUnlockables
  | SystemTypeStats
  | SystemTypeEventLeaderboards
  | SystemTypeProgression
  | SystemTypeIncentives
  | SystemTypeOther nat

text \<open>
  Go errors. Only the text returned by \<open>Error()\<close> is ever inspected by \<open>GetValue\<close>.
  \<open>NewError\<close> is \<open>runtime.NewError(message, code)\<close>; \<open>RemoteError\<close> is an error handed
  back by the Satori client; \<open>JsonError\<close> is an error of \<open>json.Decoder.Decode\<close>.
\<close>

datatype error =
    NewError string int
  | RemoteError string
  | JsonError string

fun Error :: "error \<Rightarrow> string" where
  "Error (NewError msg code) = msg"
| "Error (RemoteError msg) = msg"
| "Error (JsonError msg) = msg"

text \<open>\<open>runtime.Flag\<close>, \<open>runtime.FlagList\<close>, \<open>runtime.LiveEvent\<close>, \<open>runtime.LiveEventList\<close>:
  the fields that \<open>GetValue\<close> reads.\<close>

record Flag =
  Name :: string
  Value :: string

record FlagList =
  Flags :: "Flag list"

record LiveEvent =
  EventValue :: string

record LiveEventList =
  LiveEvents :: "LiveEvent list"

text \<open>
  \<open>SatoriPersonalizerCache\<close>. The atomic pointer \<open>liveEvents\<close> is \<open>None\<close> while it holds
  \<open>nil\<close>.
\<close>

record SatoriPersonalizerCache =
  flags :: FlagList
  liveEvents :: "LiveEventList option"

text \<open>
  \<open>SatoriPersonalizer\<close>: the cache switch and the cache, a Go map keyed by the request
  context. The fourteen \<open>publish...\<close> booleans are never read by \<open>GetValue\<close> and are
  left out.
\<close>

record 'ctx SatoriPersonalizer =
  noCache :: bool
  cache :: "'ctx \<rightharpoonup> SatoriPersonalizerCache"

text \<open>
  The \<open>System\<close> interface: \<open>GetType()\<close> and \<open>GetConfig()\<close>. \<open>GetConfig\<close> hands out a
  pointer to the system's configuration object; the model keeps the content of that
  object, and every call of \<open>GetConfig()\<close> yields the same default content.
\<close>

record 'cfg System =
  GetType :: SystemType
  GetConfig :: 'cfg

text \<open>
  The Satori client behind \<open>nk.GetSatori()\<close>: an external collaborator, taken as a
  parameter. A call returns either an error or a list (a \<open>nil\<close> error comes with a
  non-\<open>nil\<close> list).
\<close>

record 'ctx Satori =
  FlagsList :: "'ctx \<Rightarrow> string \<Rightarrow> string list \<Rightarrow> error + FlagList"
  LiveEventsList :: "'ctx \<Rightarrow> string \<Rightarrow> error + LiveEventList"

text \<open>The remote calls that one invocation of \<open>GetValue\<close> issues, in order.\<close>

datatype 'ctx call =
    is_FlagsListCall: FlagsListCall 'ctx string "string list"
  | is_LiveEventsListCall: LiveEventsListCall 'ctx string

text \<open>
  \<open>decoder.Decode(config)\<close> after \<open>DisallowUnknownFields()\<close>: it takes the payload and
  the content of the object \<open>config\<close> points to, and gives back the error (\<open>None\<close> for
  \<open>nil\<close>) together with the content of the object afterwards. The object is written in
  place, so the second component is what any later reader of \<open>config\<close> sees, whether
  or not an error is returned.
\<close>

type_synonym 'cfg decoder = "string \<Rightarrow> 'cfg \<Rightarrow> error option \<times> 'cfg"

section \<open>\<open>GetValue\<close>\<close>

definition allFlagNames :: "string list" where
  "allFlagNames = [''Hiro-Achievements'', ''Hiro-Base'', ''Hiro-Economy'', ''Hiro-Energy'',
     ''Hiro-Inventory'', ''Hiro-Leaderboards'', ''Hiro-Teams'', ''Hiro-Tutorials'',
     ''Hiro-Unlockables'', ''Hiro-Stats'', ''Hiro-Event-Leaderboards'', ''Hiro-Progression'',
     ''Hiro-Incentives'']"

text \<open>The \<open>switch system.GetType()\<close>; \<open>None\<close> is the \<open>default\<close> branch.\<close>

fun flagName_of :: "SystemType \<Rightarrow> string option" where
  "flagName_of SystemTypeAchievements = Some ''Hiro-Achievements''"
| "flagName_of SystemTypeBase = Some ''Hiro-Base''"
| "flagName_of SystemTypeEconomy = Some ''Hiro-Economy''"
| "flagName_of SystemTypeEnergy = Some ''Hiro-Energy''"
| "flagName_of SystemTypeInventory = Some ''Hiro-Inventory''"
| "flagName_of SystemTypeLeaderboards = Some ''Hiro-Leaderboards''"
| "flagName_of SystemTypeTeams = Some ''Hiro-Teams''"
| "flagName_of SystemTypeTutorials = Some ''Hiro-Tutorials''"
| "flagName_of SystemTypeUnlockables = Some ''Hiro-Unlockables''"
| "flagName_of SystemTypeStats = Some ''Hiro-Stats''"
| "flagName_of SystemTypeEventLeaderboards = Some ''Hiro-Event-Leaderboards''"
| "flagName_of SystemTypeProgression = Some ''Hiro-Progression''"
| "flagName_of SystemTypeIncentives = Some ''Hiro-Incentives''"
| "flagName_of (SystemTypeOther n) = None"

text \<open>\<open>s == SystemTypeEventLeaderboards || s == SystemTypeAchievements\<close>.\<close>

definition needsLiveEvents :: "SystemType \<Rightarrow> bool" where
  "needsLiveEvents s = (s = SystemTypeEventLeaderboards \<or> s = SystemTypeAchievements)"

text \<open>\<open>strings.Contains\<close>.\<close>

fun strings_Contains :: "string \<Rightarrow> string \<Rightarrow> bool" where
  "strings_Contains [] substr = (substr = [])"
| "strings_Contains (c # cs) substr = (prefix substr (c # cs) \<or> strings_Contains cs substr)"

text \<open>\<open>strings.Contains(err.Error(), "404 status code")\<close>.\<close>

definition is404 :: "error \<Rightarrow> bool" where
  "is404 err = strings_Contains (Error err) ''404 status code''"

text \<open>
  The four identical blocks that follow a failed remote call: a warning and
  \<open>return nil, nil\<close> for the 404 text, an error log and \<open>return nil, err\<close> otherwise.
\<close>

definition remote_failure :: "error \<Rightarrow> 'cfg option \<times> error option" where
  "remote_failure err = (if is404 err then (None, None) else (None, Some err))"

text \<open>
  The loop over \<open>liveEventsList.LiveEvents\<close> (lines 319 to 327 and 406 to 414): every
  record is decoded onto the same object; a failed decode is passed over with
  \<open>continue\<close>, a successful one sets \<open>found\<close>.
\<close>

fun decode_liveEvents :: "'cfg decoder \<Rightarrow> LiveEvent list \<Rightarrow> 'cfg \<times> bool \<Rightarrow> 'cfg \<times> bool" where
  "decode_liveEvents dec [] (config, found) = (config, found)"
| "decode_liveEvents dec (liveEvent # rest) (config, found) =
     (case dec (EventValue liveEvent) config of
        (Some err, config') \<Rightarrow> decode_liveEvents dec rest (config', found)
      | (None, config') \<Rightarrow> decode_liveEvents dec rest (config', True))"

text \<open>
  Lines 315 to 328 and 402 to 415, on the records of the live-event list: with at least
  one of them, \<open>config\<close> is taken from \<open>system.GetConfig()\<close> if it is still \<open>nil\<close>, and
  the loop runs.
\<close>

definition apply_liveEvents ::
  "'cfg decoder \<Rightarrow> 'cfg System \<Rightarrow> LiveEvent list \<Rightarrow> 'cfg option \<times> bool \<Rightarrow> 'cfg option \<times> bool" where
  "apply_liveEvents dec system evs cf =
     (if length evs > 0 then
        (let config = (case fst cf of None \<Rightarrow> GetConfig system | Some c \<Rightarrow> c);
             r = decode_liveEvents dec evs (config, snd cf)
         in (Some (fst r), snd r))
      else cf)"

text \<open>
  The loop over \<open>cacheEntry.flags.Flags\<close> (lines 387 to 400): records of another name
  are passed over; a record of the resolved name is decoded onto
  \<open>system.GetConfig()\<close>, and a decode error ends the call.
\<close>

fun decode_flags ::
  "'cfg decoder \<Rightarrow> 'cfg System \<Rightarrow> string \<Rightarrow> Flag list \<Rightarrow> 'cfg option \<times> bool
     \<Rightarrow> error + ('cfg option \<times> bool)" where
  "decode_flags dec system flagName [] (config, found) = Inr (config, found)"
| "decode_flags dec system flagName (flag # rest) (config, found) =
     (if Name flag \<noteq> flagName then decode_flags dec system flagName rest (config, found)
      else (case dec (Value flag) (GetConfig system) of
              (Some err, config') \<Rightarrow> Inl err
            | (None, config') \<Rightarrow> decode_flags dec system flagName rest (Some config', True)))"

text \<open>Lines 418 to 423: \<open>if !found { return nil, nil }; return config, nil\<close>.\<close>

definition finish :: "'cfg option \<times> bool \<Rightarrow> 'cfg option \<times> error option" where
  "finish cf = (if \<not> snd cf then (None, None) else (fst cf, None))"

text \<open>
  Lines 293 to 302, on \<open>flagList.Flags\<close>: with at least one record, \<open>Flags[0]\<close> is
  decoded onto \<open>system.GetConfig()\<close>; its name is not looked at. \<open>Inl\<close> is the
  \<open>return nil, err\<close> of a failed decode.
\<close>

definition decode_first_flag ::
  "'cfg decoder \<Rightarrow> 'cfg System \<Rightarrow> Flag list \<Rightarrow> error + ('cfg option \<times> bool)" where
  "decode_first_flag dec system fs =
     (case fs of
        [] \<Rightarrow> Inr (None, False)
      | flag0 # _ \<Rightarrow>
          (case dec (Value flag0) (GetConfig system) of
             (Some err, config') \<Rightarrow> Inl err
           | (None, config') \<Rightarrow> Inr (Some config', True)))"

text \<open>
  The branch \<open>if p.noCache\<close> (lines 283 to 329). The result is the pair that
  \<open>GetValue\<close> returns and the remote calls issued.
\<close>

definition GetValue_noCache ::
  "'cfg decoder \<Rightarrow> 'ctx Satori \<Rightarrow> 'ctx \<Rightarrow> 'cfg System \<Rightarrow> string \<Rightarrow> string
     \<Rightarrow> ('cfg option \<times> error option) \<times> 'ctx call list" where
  "GetValue_noCache dec nk ctx system userID flagName =
     (case FlagsList nk ctx userID [flagName] of
        Inl err \<Rightarrow> (remote_failure err, [FlagsListCall ctx userID [flagName]])
      | Inr flagList \<Rightarrow>
          (case decode_first_flag dec system (Flags flagList) of
             Inl err \<Rightarrow> ((None, Some err), [FlagsListCall ctx userID [flagName]])
           | Inr cf \<Rightarrow>
               (if needsLiveEvents (GetType system) then
                  (case LiveEventsList nk ctx userID of
                     Inl err \<Rightarrow>
                       (remote_failure err,
                        [FlagsListCall ctx userID [flagName], LiveEventsListCall ctx userID])
                   | Inr liveEventsList \<Rightarrow>
                       (finish (apply_liveEvents dec system (LiveEvents liveEventsList) cf),
                        [FlagsListCall ctx userID [flagName], LiveEventsListCall ctx userID]))
                else (finish cf, [FlagsListCall ctx userID [flagName]]))))"

text \<open>
  Lines 331 to 370: the cache lookup and, on a miss, the fetch of all flag names, the
  fetch of the live events for the two system types that need them, and the insertion
  of the new entry. \<open>Inl\<close> is an early \<open>return\<close>.
\<close>

definition lookup_or_fetch ::
  "'ctx Satori \<Rightarrow> 'ctx SatoriPersonalizer \<Rightarrow> 'ctx \<Rightarrow> 'cfg System \<Rightarrow> string
     \<Rightarrow> (('cfg option \<times> error option) \<times> 'ctx call list)
       + (SatoriPersonalizerCache \<times> 'ctx SatoriPersonalizer \<times> 'ctx call list)" where
  "lookup_or_fetch nk p ctx system userID =
     (case cache p ctx of
        Some cacheEntry \<Rightarrow> Inr (cacheEntry, p, [])
      | None \<Rightarrow>
          (case FlagsList nk ctx userID allFlagNames of
             Inl err \<Rightarrow> Inl (remote_failure err, [FlagsListCall ctx userID allFlagNames])
           | Inr flagList \<Rightarrow>
               (if needsLiveEvents (GetType system) then
                  (case LiveEventsList nk ctx userID of
                     Inl err \<Rightarrow>
                       Inl (remote_failure err,
                            [FlagsListCall ctx userID allFlagNames, LiveEventsListCall ctx userID])
                   | Inr liveEventsList \<Rightarrow>
                       (let cacheEntry = \<lparr>flags = flagList, liveEvents = Some liveEventsList\<rparr>
                        in Inr (cacheEntry, p\<lparr>cache := (cache p)(ctx \<mapsto> cacheEntry)\<rparr>,
                                [FlagsListCall ctx userID allFlagNames,
                                 LiveEventsListCall ctx userID])))
                else
                  (let cacheEntry = \<lparr>flags = flagList, liveEvents = None\<rparr>
                   in Inr (cacheEntry, p\<lparr>cache := (cache p)(ctx \<mapsto> cacheEntry)\<rparr>,
                           [FlagsListCall ctx userID allFlagNames])))))"

text \<open>
  Lines 372 to 383: an entry whose \<open>liveEvents\<close> is still \<open>nil\<close> is filled when the
  system type needs live events. The entry is shared with the map through its pointer,
  so the store shows in the cache.
\<close>

definition ensure_liveEvents ::
  "'ctx Satori \<Rightarrow> 'ctx \<Rightarrow> 'cfg System \<Rightarrow> string
     \<Rightarrow> SatoriPersonalizerCache \<times> 'ctx SatoriPersonalizer \<times> 'ctx call list
     \<Rightarrow> (('cfg option \<times> error option) \<times> 'ctx call list)
       + (SatoriPersonalizerCache \<times> 'ctx SatoriPersonalizer \<times> 'ctx call list)" where
  "ensure_liveEvents nk ctx system userID st =
     (case st of (cacheEntry, p, calls) \<Rightarrow>
        (if needsLiveEvents (GetType system) \<and> liveEvents cacheEntry = None then
           (case LiveEventsList nk ctx userID of
              Inl err \<Rightarrow> Inl (remote_failure err, calls @ [LiveEventsListCall ctx userID])
            | Inr liveEventsList \<Rightarrow>
                (let cacheEntry' = cacheEntry\<lparr>liveEvents := Some liveEventsList\<rparr>
                 in Inr (cacheEntry', p\<lparr>cache := (cache p)(ctx \<mapsto> cacheEntry')\<rparr>,
                         calls @ [LiveEventsListCall ctx userID])))
         else Inr (cacheEntry, p, calls)))"

text \<open>
  Lines 385 to 423 of the caching branch: the flags of the entry, then its live events,
  then the final \<open>return\<close>.
\<close>

definition merge_cached ::
  "'cfg decoder \<Rightarrow> 'cfg System \<Rightarrow> string \<Rightarrow> SatoriPersonalizerCache
     \<Rightarrow> 'cfg option \<times> error option" where
  "merge_cached dec system flagName cacheEntry =
     (case decode_flags dec system flagName (Flags (flags cacheEntry)) (None, False) of
        Inl err \<Rightarrow> (None, Some err)
      | Inr cf \<Rightarrow>
          (case liveEvents cacheEntry of
             None \<Rightarrow> finish cf
           | Some liveEventsList \<Rightarrow>
               finish (apply_liveEvents dec system (LiveEvents liveEventsList) cf)))"

text \<open>The \<open>else\<close> branch of \<open>if p.noCache\<close> (lines 331 to 415).\<close>

definition GetValue_cached ::
  "'cfg decoder \<Rightarrow> 'ctx Satori \<Rightarrow> 'ctx SatoriPersonalizer \<Rightarrow> 'ctx \<Rightarrow> 'cfg System \<Rightarrow> string
     \<Rightarrow> string \<Rightarrow> ('cfg option \<times> error option) \<times> 'ctx SatoriPersonalizer \<times> 'ctx call list" where
  "GetValue_cached dec nk p ctx system userID flagName =
     (case lookup_or_fetch nk p ctx system userID of
        Inl (r, calls) \<Rightarrow> (r, p, calls)
      | Inr st \<Rightarrow>
          (case ensure_liveEvents nk ctx system userID st of
             Inl (r, calls) \<Rightarrow> (r, fst (snd st), calls)
           | Inr (cacheEntry, p', calls) \<Rightarrow>
               (merge_cached dec system flagName cacheEntry, p', calls)))"

text \<open>
  \<open>GetValue\<close>: the pair it returns (\<open>None\<close> for \<open>nil\<close>), the personalizer afterwards and
  the remote calls it issued.
\<close>

definition GetValue ::
  "'cfg decoder \<Rightarrow> 'ctx Satori \<Rightarrow> 'ctx SatoriPersonalizer \<Rightarrow> 'ctx \<Rightarrow> 'cfg System \<Rightarrow> string
     \<Rightarrow> ('cfg option \<times> error option) \<times> 'ctx SatoriPersonalizer \<times> 'ctx call list" where
  "GetValue dec nk p ctx system userID =
     (case flagName_of (GetType system) of
        None \<Rightarrow> ((None, Some (NewError ''hiro system type unknown'' 3)), p, [])
      | Some flagName \<Rightarrow>
          (if noCache p then
             (case GetValue_noCache dec nk ctx system userID flagName of
                (r, calls) \<Rightarrow> (r, p, calls))
           else GetValue_cached dec nk p ctx system userID flagName))"

section \<open>The strict JSON decoder on a fragment of JSON\<close>

text \<open>
  \<open>encoding/json\<close> belongs to Go's standard library, not to the repository. The
  theorems on \<open>GetValue\<close> hold for every decoder; the concrete scenarios need one that
  runs, and use the following model of \<open>Decoder.Decode\<close> after
  \<open>DisallowUnknownFields()\<close> into a pointer to a struct:
  \<^item> \<open>Decode\<close> first reads one complete JSON value from the input; malformed input is
    reported before the target is touched, and input after the value is not read;
  \<^item> the members of the object are then stored in the order of the text; a key that
    names no field records the error \<open>json: unknown field\<close>, and decoding goes on with
    the next member;
  \<^item> the first recorded error is returned once the object has been walked.
  The fragment covered is one object whose keys are strings without escape sequences
  and whose values are integers, taken without a bound; any other text is reported as
  malformed. A struct is described by the function that stores a value under a JSON key,
  \<open>None\<close> where no field bears that key.
\<close>

definition isSpace :: "char \<Rightarrow> bool" where
  "isSpace c = (c = CHR '' '' \<or> c = CHR 0x09 \<or> c = CHR 0x0A \<or> c = CHR 0x0D)"

definition isDigit :: "char \<Rightarrow> bool" where
  "isDigit c = (c \<in> set ''0123456789'')"

definition digit_of :: "char \<Rightarrow> int" where
  "digit_of c = of_char c - 48"

text \<open>
  The states of the scanner, which steps through the text one character at a time.
  \<open>InNumber key neg n zero\<close>: the digits read so far make \<open>n\<close>, \<open>neg\<close> after a minus
  sign, \<open>zero\<close> when the number began with \<open>0\<close> (no digit may follow).
  \<open>CHR 0x22\<close> is the double quote, \<open>CHR 0x5C\<close> the backslash.
\<close>

datatype scan_state =
    BeginValue
  | BeginKeyOrEnd
  | BeginKey
  | InKey string
  | EndKey string
  | BeginNumber string
  | NegNumber string
  | InNumber string bool int bool
  | EndValue

fun scan :: "scan_state \<Rightarrow> (string \<times> int) list \<Rightarrow> string \<Rightarrow> (string \<times> int) list option" where
  "scan st members [] = None"
| "scan BeginValue members (c # cs) =
     (if isSpace c then scan BeginValue members cs
      else if c = CHR ''{'' then scan BeginKeyOrEnd members cs
      else None)"
| "scan BeginKeyOrEnd members (c # cs) =
     (if isSpace c then scan BeginKeyOrEnd members cs
      else if c = CHR 0x22 then scan (InKey []) members cs
      else if c = CHR ''}'' then Some members
      else None)"
| "scan BeginKey members (c # cs) =
     (if isSpace c then scan BeginKey members cs
      else if c = CHR 0x22 then scan (InKey []) members cs
      else None)"
| "scan (InKey key) members (c # cs) =
     (if c = CHR 0x22 then scan (EndKey key) members cs
      else if c = CHR 0x5C \<or> of_char c < (32::nat) then None
      else scan (InKey (key @ [c])) members cs)"
| "scan (EndKey key) members (c # cs) =
     (if isSpace c then scan (EndKey key) members cs
      else if c = CHR '':'' then scan (BeginNumber key) members cs
      else None)"
| "scan (BeginNumber key) members (c # cs) =
     (if isSpace c then scan (BeginNumber key) members cs
      else if c = CHR ''-'' then scan (NegNumber key) members cs
      else if isDigit c then scan (InNumber key False (digit_of c) (c = CHR ''0'')) members cs
      else None)"
| "scan (NegNumber key) members (c # cs) =
     (if isDigit c then scan (InNumber key True (digit_of c) (c = CHR ''0'')) members cs
      else None)"
| "scan (InNumber key neg n zero) members (c # cs) =
     (let members' = members @ [(key, if neg then - n else n)] in
      if isDigit c then
        (if zero then None else scan (InNumber key neg (10 * n + digit_of c) False) members cs)
      else if isSpace c then scan EndValue members' cs
      else if c = CHR '','' then scan BeginKey members' cs
      else if c = CHR ''}'' then Some members'
      else None)"
| "scan EndValue members (c # cs) =
     (if isSpace c then scan EndValue members cs
      else if c = CHR '','' then scan BeginKey members cs
      else if c = CHR ''}'' then Some members
      else None)"

text \<open>The error \<open>json: unknown field "key"\<close>.\<close>

definition unknown_field :: "string \<Rightarrow> error" where
  "unknown_field key = JsonError (''json: unknown field '' @ [CHR 0x22] @ key @ [CHR 0x22])"

fun decode_members ::
  "(string \<Rightarrow> int \<Rightarrow> 'cfg \<Rightarrow> 'cfg option) \<Rightarrow> (string \<times> int) list \<Rightarrow> error option \<times> 'cfg
     \<Rightarrow> error option \<times> 'cfg" where
  "decode_members setField [] (savedError, target) = (savedError, target)"
| "decode_members setField ((key, v) # rest) (savedError, target) =
     (case setField key v target of
        Some target' \<Rightarrow> decode_members setField rest (savedError, target')
      | None \<Rightarrow>
          decode_members setField rest
            (case savedError of None \<Rightarrow> Some (unknown_field key) | Some e \<Rightarrow> Some e,
             target))"

definition Decode :: "(string \<Rightarrow> int \<Rightarrow> 'cfg \<Rightarrow> 'cfg option) \<Rightarrow> 'cfg decoder" where
  "Decode setField payload target =
     (case scan BeginValue [] payload of
        None \<Rightarrow> (Some (JsonError ''invalid JSON''), target)
      | Some members \<Rightarrow> decode_members setField members (None, target))"

text \<open>
  Modelled from the spec: the configuration object of the Achievements system, whose
  type declaration is not part of the file. The spec's scenario names one field of it,
  \<open>rewardMultiplier\<close>, holding a number. A key is matched to the field by its exact
  spelling.
\<close>

record AchievementsConfig =
  rewardMultiplier :: int

definition AchievementsConfig_setField ::
  "string \<Rightarrow> int \<Rightarrow> AchievementsConfig \<Rightarrow> AchievementsConfig option" where
  "AchievementsConfig_setField key v target =
     (if key = ''rewardMultiplier'' then Some (target\<lparr>rewardMultiplier := v\<rparr>) else None)"

section \<open>Construction and the background sweep\<close>

text \<open>\<open>NewSatoriPersonalizer\<close> with or without the option \<open>SatoriPersonalizerNoCache()\<close>.\<close>

definition NewSatoriPersonalizer :: "bool \<Rightarrow> 'ctx SatoriPersonalizer" where
  "NewSatoriPersonalizer noCacheOption = \<lparr>noCache = noCacheOption, cache = Map.empty\<rparr>"

text \<open>
  One tick of the sweep (lines 229 to 235): every key whose \<open>Err()\<close> is not \<open>nil\<close> is
  deleted. \<open>ctxErr c\<close> stands for \<open>c.Err() != nil\<close>.
\<close>

definition sweep :: "('ctx \<Rightarrow> bool) \<Rightarrow> 'ctx SatoriPersonalizer \<Rightarrow> 'ctx SatoriPersonalizer" where
  "sweep ctxErr s = s\<lparr>cache := (\<lambda>cacheCtx. if ctxErr cacheCtx then None else cache s cacheCtx)\<rparr>"

text \<open>Any number of ticks, each with its own view of which contexts have ended.\<close>

fun sweeps :: "('ctx \<Rightarrow> bool) list \<Rightarrow> 'ctx SatoriPersonalizer \<Rightarrow> 'ctx SatoriPersonalizer" where
  "sweeps [] s = s"
| "sweeps (ctxErr # ticks) s = sweeps ticks (sweep ctxErr s)"

section \<open>Vocabulary of the properties\<close>

text \<open>The content of the object after one live-event record has been decoded onto it.\<close>

definition written :: "'cfg decoder \<Rightarrow> 'cfg \<Rightarrow> LiveEvent \<Rightarrow> 'cfg" where
  "written dec config liveEvent = snd (dec (EventValue liveEvent) config)"

text \<open>
  Whether the \<open>i\<close>-th record of a run of the live-event loop decodes without error; it
  is decoded onto the object as the records before it have left it.
\<close>

definition decodes_ok :: "'cfg decoder \<Rightarrow> 'cfg \<Rightarrow> LiveEvent list \<Rightarrow> nat \<Rightarrow> bool" where
  "decodes_ok dec config evs i =
     (fst (dec (EventValue (evs ! i)) (foldl (written dec) config (take i evs))) = None)"

text \<open>The error, if any, with which the Satori client answers a call.\<close>

definition failed_with :: "'ctx Satori \<Rightarrow> 'ctx call \<Rightarrow> error option" where
  "failed_with nk c =
     (case c of
        FlagsListCall ctx userID names \<Rightarrow>
          (case FlagsList nk ctx userID names of Inl err \<Rightarrow> Some err | Inr _ \<Rightarrow> None)
      | LiveEventsListCall ctx userID \<Rightarrow>
          (case LiveEventsList nk ctx userID of Inl err \<Rightarrow> Some err | Inr _ \<Rightarrow> None))"

text \<open>
  The flag records and the live-event records a call of \<open>GetValue\<close> works on. Without
  the cache they are the answers of the Satori client (live events only for the two
  system types that ask for them); with the cache they are those of the entry of the
  context, \<open>p\<close> being the personalizer as the call leaves it.
\<close>

definition flag_records ::
  "'ctx Satori \<Rightarrow> 'ctx SatoriPersonalizer \<Rightarrow> 'ctx \<Rightarrow> string \<Rightarrow> string \<Rightarrow> Flag list" where
  "flag_records nk p ctx userID flagName =
     (if noCache p then
        (case FlagsList nk ctx userID [flagName] of Inl err \<Rightarrow> [] | Inr flagList \<Rightarrow> Flags flagList)
      else (case cache p ctx of None \<Rightarrow> [] | Some cacheEntry \<Rightarrow> Flags (flags cacheEntry)))"

definition event_records ::
  "'ctx Satori \<Rightarrow> 'ctx SatoriPersonalizer \<Rightarrow> 'ctx \<Rightarrow> 'cfg System \<Rightarrow> string \<Rightarrow> LiveEvent list" where
  "event_records nk p ctx system userID =
     (if noCache p then
        (if needsLiveEvents (GetType system) then
           (case LiveEventsList nk ctx userID of
              Inl err \<Rightarrow> []
            | Inr liveEventsList \<Rightarrow> LiveEvents liveEventsList)
         else [])
      else
        (case cache p ctx of
           None \<Rightarrow> []
         | Some cacheEntry \<Rightarrow>
             (case liveEvents cacheEntry of
                None \<Rightarrow> []
              | Some liveEventsList \<Rightarrow> LiveEvents liveEventsList)))"

text \<open>
  The flag records that are decoded: the first record of the answer without the cache,
  the records of the resolved name with it.
\<close>

definition matched_flags :: "bool \<Rightarrow> string \<Rightarrow> Flag list \<Rightarrow> Flag list" where
  "matched_flags direct flagName records =
     (if direct then take 1 records else filter (\<lambda>flag. Name flag = flagName) records)"

text \<open>
  The object the live-event loop starts from: \<open>system.GetConfig()\<close> when no flag record
  was decoded, and otherwise the object as the last decoded flag record has left it.
\<close>

definition after_flags :: "'cfg decoder \<Rightarrow> 'cfg System \<Rightarrow> Flag list \<Rightarrow> 'cfg" where
  "after_flags dec system matched =
     (case matched of
        [] \<Rightarrow> GetConfig system
      | _ # _ \<Rightarrow> snd (dec (Value (last matched)) (GetConfig system)))"

section \<open>Concrete inputs\<close>

text \<open>The payloads of the spec's scenario, one with a key that names no field, and
  the empty object.\<close>

definition flag_payload :: string where
  \<open>flag_payload = ''{"rewardMultiplier": 2}''\<close>

definition event_payload :: string where
  \<open>event_payload = ''{"rewardMultiplier": 3}''\<close>

definition stray_payload :: string where
  \<open>stray_payload = ''{"rewardMultiplier": 7, "bogus": 1}''\<close>

definition empty_payload :: string where
  "empty_payload = ''{}''"

text \<open>The Achievements system of the scenario; its default \<open>rewardMultiplier\<close> is 1.\<close>

definition achievements :: "AchievementsConfig System" where
  "achievements = \<lparr>GetType = SystemTypeAchievements, GetConfig = \<lparr>rewardMultiplier = 1\<rparr>\<rparr>"

text \<open>A system of the Base type, with an object of the same shape.\<close>

definition base :: "AchievementsConfig System" where
  "base = \<lparr>GetType = SystemTypeBase, GetConfig = \<lparr>rewardMultiplier = 1\<rparr>\<rparr>"

text \<open>The view of a sweep tick in which exactly the context \<open>c\<close> has ended.\<close>

definition only_ended :: "nat \<Rightarrow> nat \<Rightarrow> bool" where
  "only_ended c ctx = (ctx = c)"

text \<open>A Satori client that answers with the flags of the names asked for and with the
  given live events, one that answers with all the given flags whatever the names asked
  for, one that answers with the flags asked for and fails the lookup of the live events,
  and one that fails every call with the given error.\<close>

definition answering :: "Flag list \<Rightarrow> LiveEvent list \<Rightarrow> nat Satori" where
  "answering fs evs =
     \<lparr>FlagsList = (\<lambda>ctx userID names. Inr \<lparr>Flags = filter (\<lambda>flag. Name flag \<in> set names) fs\<rparr>),
      LiveEventsList = (\<lambda>ctx userID. Inr \<lparr>LiveEvents = evs\<rparr>)\<rparr>"

definition answering_anyway :: "Flag list \<Rightarrow> LiveEvent list \<Rightarrow> nat Satori" where
  "answering_anyway fs evs =
     \<lparr>FlagsList = (\<lambda>ctx userID names. Inr \<lparr>Flags = fs\<rparr>),
      LiveEventsList = (\<lambda>ctx userID. Inr \<lparr>LiveEvents = evs\<rparr>)\<rparr>"

definition answering_flags_only :: "Flag list \<Rightarrow> error \<Rightarrow> nat Satori" where
  "answering_flags_only fs err =
     \<lparr>FlagsList = (\<lambda>ctx userID names. Inr \<lparr>Flags = filter (\<lambda>flag. Name flag \<in> set names) fs\<rparr>),
      LiveEventsList = (\<lambda>ctx userID. Inl err)\<rparr>"

definition failing :: "error \<Rightarrow> nat Satori" where
  "failing err =
     \<lparr>FlagsList = (\<lambda>ctx userID names. Inl err), LiveEventsList = (\<lambda>ctx userID. Inl err)\<rparr>"

section \<open>The paths through \<open>GetValue\<close>\<close>

lemmas GetValue_eval =
  GetValue_def GetValue_noCache_def GetValue_cached_def lookup_or_fetch_def
  ensure_liveEvents_def merge_cached_def decode_first_flag_def apply_liveEvents_def
  finish_def remote_failure_def is404_def needsLiveEvents_def allFlagNames_def Let_def

lemmas Decode_eval =
  Decode_def isSpace_def isDigit_def digit_of_def AchievementsConfig_setField_def
  flag_payload_def event_payload_def stray_payload_def empty_payload_def

lemmas fixture_defs =
  achievements_def base_def answering_def answering_anyway_def answering_flags_only_def
  failing_def only_ended_def
  NewSatoriPersonalizer_def

lemma GetValue_noCache_paths:
  assumes "GetValue_noCache dec nk ctx system userID flagName = (r, calls)"
  obtains
    (flags_failed) err where
      "FlagsList nk ctx userID [flagName] = Inl err"
      "r = remote_failure err" "calls = [FlagsListCall ctx userID [flagName]]"
  | (flag_rejected) flagList err where
      "FlagsList nk ctx userID [flagName] = Inr flagList"
      "decode_first_flag dec system (Flags flagList) = Inl err"
      "r = (None, Some err)" "calls = [FlagsListCall ctx userID [flagName]]"
  | (live_failed) flagList cf err where
      "FlagsList nk ctx userID [flagName] = Inr flagList"
      "decode_first_flag dec system (Flags flagList) = Inr cf"
      "needsLiveEvents (GetType system)"
      "LiveEventsList nk ctx userID = Inl err"
      "r = remote_failure err"
      "calls = [FlagsListCall ctx userID [flagName], LiveEventsListCall ctx userID]"
  | (merged_live) flagList cf liveEventsList where
      "FlagsList nk ctx userID [flagName] = Inr flagList"
      "decode_first_flag dec system (Flags flagList) = Inr cf"
      "needsLiveEvents (GetType system)"
      "LiveEventsList nk ctx userID = Inr liveEventsList"
      "r = finish (apply_liveEvents dec system (LiveEvents liveEventsList) cf)"
      "calls = [FlagsListCall ctx userID [flagName], LiveEventsListCall ctx userID]"
  | (merged) flagList cf where
      "FlagsList nk ctx userID [flagName] = Inr flagList"
      "decode_first_flag dec system (Flags flagList) = Inr cf"
      "\<not> needsLiveEvents (GetType system)"
      "r = finish cf" "calls = [FlagsListCall ctx userID [flagName]]"
proof (cases "FlagsList nk ctx userID [flagName]")
  case (Inl err)
  show ?thesis
    by (rule flags_failed[of err]) (use Inl assms in \<open>simp_all add: GetValue_noCache_def\<close>)
next
  case (Inr flagList)
  note fl = Inr
  show ?thesis
  proof (cases "decode_first_flag dec system (Flags flagList)")
    case (Inl err)
    show ?thesis
      by (rule flag_rejected[of flagList err])
        (use fl Inl assms in \<open>simp_all add: GetValue_noCache_def\<close>)
  next
    case (Inr cf)
    note ok = Inr
    show ?thesis
    proof (cases "needsLiveEvents (GetType system)")
      case True
      show ?thesis
      proof (cases "LiveEventsList nk ctx userID")
        case (Inl err)
        show ?thesis
          by (rule live_failed[of flagList cf err])
            (use fl ok True Inl assms in \<open>simp_all add: GetValue_noCache_def\<close>)
      next
        case (Inr liveEventsList)
        show ?thesis
          by (rule merged_live[of flagList cf liveEventsList])
            (use fl ok True Inr assms in \<open>simp_all add: GetValue_noCache_def\<close>)
      qed
    next
      case False
      show ?thesis
        by (rule merged[of flagList cf])
          (use fl ok False assms in \<open>simp_all add: GetValue_noCache_def\<close>)
    qed
  qed
qed

lemma GetValue_cached_paths:
  assumes "GetValue_cached dec nk p ctx system userID flagName = (r, p', calls)"
  obtains
    (flags_failed) err where
      "cache p ctx = None"
      "FlagsList nk ctx userID allFlagNames = Inl err"
      "r = remote_failure err" "p' = p" "calls = [FlagsListCall ctx userID allFlagNames]"
  | (live_failed) flagList err where
      "cache p ctx = None"
      "FlagsList nk ctx userID allFlagNames = Inr flagList"
      "needsLiveEvents (GetType system)"
      "LiveEventsList nk ctx userID = Inl err"
      "r = remote_failure err" "p' = p"
      "calls = [FlagsListCall ctx userID allFlagNames, LiveEventsListCall ctx userID]"
  | (stored_live) flagList liveEventsList where
      "cache p ctx = None"
      "FlagsList nk ctx userID allFlagNames = Inr flagList"
      "needsLiveEvents (GetType system)"
      "LiveEventsList nk ctx userID = Inr liveEventsList"
      "r = merge_cached dec system flagName \<lparr>flags = flagList, liveEvents = Some liveEventsList\<rparr>"
      "p' = p\<lparr>cache := (cache p)(ctx \<mapsto> \<lparr>flags = flagList, liveEvents = Some liveEventsList\<rparr>)\<rparr>"
      "calls = [FlagsListCall ctx userID allFlagNames, LiveEventsListCall ctx userID]"
  | (stored) flagList where
      "cache p ctx = None"
      "FlagsList nk ctx userID allFlagNames = Inr flagList"
      "\<not> needsLiveEvents (GetType system)"
      "r = merge_cached dec system flagName \<lparr>flags = flagList, liveEvents = None\<rparr>"
      "p' = p\<lparr>cache := (cache p)(ctx \<mapsto> \<lparr>flags = flagList, liveEvents = None\<rparr>)\<rparr>"
      "calls = [FlagsListCall ctx userID allFlagNames]"
  | (hit_live_failed) cacheEntry err where
      "cache p ctx = Some cacheEntry"
      "needsLiveEvents (GetType system)" "liveEvents cacheEntry = None"
      "LiveEventsList nk ctx userID = Inl err"
      "r = remote_failure err" "p' = p" "calls = [LiveEventsListCall ctx userID]"
  | (hit_filled) cacheEntry liveEventsList where
      "cache p ctx = Some cacheEntry"
      "needsLiveEvents (GetType system)" "liveEvents cacheEntry = None"
      "LiveEventsList nk ctx userID = Inr liveEventsList"
      "r = merge_cached dec system flagName (cacheEntry\<lparr>liveEvents := Some liveEventsList\<rparr>)"
      "p' = p\<lparr>cache := (cache p)(ctx \<mapsto> cacheEntry\<lparr>liveEvents := Some liveEventsList\<rparr>)\<rparr>"
      "calls = [LiveEventsListCall ctx userID]"
  | (hit) cacheEntry where
      "cache p ctx = Some cacheEntry"
      "\<not> (needsLiveEvents (GetType system) \<and> liveEvents cacheEntry = None)"
      "r = merge_cached dec system flagName cacheEntry" "p' = p" "calls = []"
proof (cases "cache p ctx")
  case None
  show ?thesis
  proof (cases "FlagsList nk ctx userID allFlagNames")
    case (Inl err)
    show ?thesis
      by (rule flags_failed[of err])
        (use None Inl assms in \<open>simp_all add: GetValue_cached_def lookup_or_fetch_def\<close>)
  next
    case (Inr flagList)
    note fl = Inr
    show ?thesis
    proof (cases "needsLiveEvents (GetType system)")
      case True
      show ?thesis
      proof (cases "LiveEventsList nk ctx userID")
        case (Inl err)
        show ?thesis
          by (rule live_failed[of flagList err])
            (use None fl True Inl assms in
              \<open>simp_all add: GetValue_cached_def lookup_or_fetch_def\<close>)
      next
        case (Inr liveEventsList)
        show ?thesis
          by (rule stored_live[of flagList liveEventsList])
            (use None fl True Inr assms in
              \<open>simp_all add: GetValue_cached_def lookup_or_fetch_def ensure_liveEvents_def Let_def\<close>)
      qed
    next
      case False
      show ?thesis
        by (rule stored[of flagList])
          (use None fl False assms in
            \<open>simp_all add: GetValue_cached_def lookup_or_fetch_def ensure_liveEvents_def Let_def\<close>)
    qed
  qed
next
  case (Some cacheEntry)
  show ?thesis
  proof (cases "liveEvents cacheEntry")
    case None
    note unset = None
    show ?thesis
    proof (cases "needsLiveEvents (GetType system)")
      case True
      show ?thesis
      proof (cases "LiveEventsList nk ctx userID")
        case (Inl err)
        show ?thesis
          by (rule hit_live_failed[of cacheEntry err])
            (use Some unset True Inl assms in
              \<open>simp_all add: GetValue_cached_def lookup_or_fetch_def ensure_liveEvents_def\<close>)
      next
        case (Inr liveEventsList)
        show ?thesis
          by (rule hit_filled[of cacheEntry liveEventsList])
            (use Some unset True Inr assms in
              \<open>simp_all add: GetValue_cached_def lookup_or_fetch_def ensure_liveEvents_def
                Let_def\<close>)
      qed
    next
      case False
      show ?thesis
        by (rule hit[of cacheEntry])
          (use Some False assms in
            \<open>simp_all add: GetValue_cached_def lookup_or_fetch_def ensure_liveEvents_def\<close>)
    qed
  next
    case (Some liveEventsList)
    note filled = Some
    show ?thesis
      by (rule hit[of cacheEntry])
        (use \<open>cache p ctx = Some cacheEntry\<close> filled assms in
          \<open>simp_all add: GetValue_cached_def lookup_or_fetch_def ensure_liveEvents_def\<close>)
  qed
qed


lemma GetValue_paths:
  assumes "GetValue dec nk p ctx system userID = (r, p', calls)"
  obtains
    (unknown)
      "flagName_of (GetType system) = None"
      "r = (None, Some (NewError ''hiro system type unknown'' 3))" "p' = p" "calls = []"
  | (direct) flagName where
      "flagName_of (GetType system) = Some flagName" "noCache p"
      "GetValue_noCache dec nk ctx system userID flagName = (r, calls)" "p' = p"
  | (caching) flagName where
      "flagName_of (GetType system) = Some flagName" "\<not> noCache p"
      "GetValue_cached dec nk p ctx system userID flagName = (r, p', calls)"
proof (cases "flagName_of (GetType system)")
  case None
  show ?thesis
    by (rule unknown) (use None assms in \<open>simp_all add: GetValue_def\<close>)
next
  case (Some flagName)
  show ?thesis
  proof (cases "noCache p")
    case True
    show ?thesis
      by (rule direct[of flagName])
        (use Some True assms in \<open>auto simp: GetValue_def split: prod.splits\<close>)
  next
    case False
    show ?thesis
      by (rule caching[of flagName]) (use Some False assms in \<open>simp_all add: GetValue_def\<close>)
  qed
qed

section \<open>The two loops\<close>

lemma decode_liveEvents_config:
  "fst (decode_liveEvents dec evs (c, f)) = foldl (written dec) c evs"
  by (induction evs arbitrary: c f) (auto simp: written_def split: prod.splits option.splits)

lemma decode_liveEvents_found:
  "snd (decode_liveEvents dec evs (c, f)) = (f \<or> (\<exists>i<length evs. decodes_ok dec c evs i))"
proof (induction evs arbitrary: c f)
  case Nil
  then show ?case by simp
next
  case (Cons ev evs)
  obtain e c' where d: "dec (EventValue ev) c = (e, c')"
    by (cases "dec (EventValue ev) c")
  have w: "written dec c ev = c'"
    using d by (simp add: written_def)
  have unroll: "(\<exists>i<length (ev # evs). decodes_ok dec c (ev # evs) i)
      = (e = None \<or> (\<exists>i<length evs. decodes_ok dec c' evs i))"
    using d w by (simp add: Ex_less_Suc2 decodes_ok_def)
  show ?case
    using Cons.IH[of c'] d unfolding unroll by (cases e) auto
qed

lemma apply_liveEvents_Nil:
  "apply_liveEvents dec system [] cf = cf"
  by (simp add: apply_liveEvents_def)

lemma apply_liveEvents_eq:
  assumes "evs \<noteq> []"
  shows "apply_liveEvents dec system evs (config, found) =
    (let c0 = (case config of None \<Rightarrow> GetConfig system | Some c \<Rightarrow> c)
     in (Some (foldl (written dec) c0 evs),
         found \<or> (\<exists>i<length evs. decodes_ok dec c0 evs i)))"
  using assms
  by (simp add: apply_liveEvents_def Let_def decode_liveEvents_config decode_liveEvents_found)

lemma decode_flags_filter:
  "decode_flags dec system flagName fs cf
     = decode_flags dec system flagName (filter (\<lambda>flag. Name flag = flagName) fs) cf"
proof (induction fs arbitrary: cf)
  case Nil
  show ?case by simp
next
  case (Cons flag fs)
  obtain config found where cf: "cf = (config, found)" by (cases cf)
  show ?case
  proof (cases "Name flag = flagName")
    case True
    obtain e c where d: "dec (Value flag) (GetConfig system) = (e, c)"
      by (cases "dec (Value flag) (GetConfig system)")
    show ?thesis
    proof (cases e)
      case None
      with True d cf Cons.IH[of "(Some c, True)"] show ?thesis by simp
    next
      case (Some err)
      with True d cf show ?thesis by simp
    qed
  next
    case False
    with cf Cons.IH[of cf] show ?thesis by simp
  qed
qed

lemma matched_name:
  "filter (\<lambda>flag. Name flag = flagName) fs = f # rest \<Longrightarrow> Name f = flagName"
proof -
  assume a: "filter (\<lambda>flag. Name flag = flagName) fs = f # rest"
  have "f \<in> set (filter (\<lambda>flag. Name flag = flagName) fs)"
    unfolding a by simp
  then show ?thesis by simp
qed

lemma decode_flags_rejected:
  assumes "filter (\<lambda>flag. Name flag = flagName) fs = f # rest"
    and "dec (Value f) (GetConfig system) = (Some e, c')"
  shows "decode_flags dec system flagName fs (None, False) = Inl e"
proof -
  have "decode_flags dec system flagName fs (None, False)
      = decode_flags dec system flagName (f # rest) (None, False)"
    using decode_flags_filter[of dec system flagName fs] assms(1) by simp
  also have "\<dots> = Inl e"
    using matched_name[OF assms(1)] assms(2) by simp
  finally show ?thesis .
qed

lemma decode_flags_one:
  assumes "filter (\<lambda>flag. Name flag = flagName) fs = [f]"
    and "dec (Value f) (GetConfig system) = (None, c1)"
  shows "decode_flags dec system flagName fs (None, False) = Inr (Some c1, True)"
proof -
  have "decode_flags dec system flagName fs (None, False)
      = decode_flags dec system flagName [f] (None, False)"
    using decode_flags_filter[of dec system flagName fs] assms(1) by simp
  also have "\<dots> = Inr (Some c1, True)"
    using matched_name[OF assms(1)] assms(2) by simp
  finally show ?thesis .
qed

lemma decode_flags_none:
  assumes "filter (\<lambda>flag. Name flag = flagName) fs = []"
  shows "decode_flags dec system flagName fs cf = Inr cf"
proof -
  have "decode_flags dec system flagName fs cf = decode_flags dec system flagName [] cf"
    using decode_flags_filter[of dec system flagName fs cf] assms by simp
  then show ?thesis by (cases cf) simp
qed

section \<open>What a call that no remote failure cuts short returns\<close>

text \<open>
  The result is that of the flag stage of the branch taken, on the flag records of the
  call, followed by the live-event stage on its live-event records.
\<close>

lemma GetValue_merged:
  assumes call: "GetValue dec nk p ctx system userID = (r, p', calls)"
    and resolved: "flagName_of (GetType system) = Some flagName"
    and remote_ok: "\<forall>c\<in>set calls. failed_with nk c = None"
  shows "r =
    (case (if noCache p
           then decode_first_flag dec system (flag_records nk p' ctx userID flagName)
           else decode_flags dec system flagName (flag_records nk p' ctx userID flagName)
                  (None, False)) of
       Inl err \<Rightarrow> (None, Some err)
     | Inr cf \<Rightarrow>
         finish (apply_liveEvents dec system (event_records nk p' ctx system userID) cf))"
  using call
proof (cases rule: GetValue_paths)
  case unknown
  with resolved show ?thesis by simp
next
  case (direct flagName')
  then have fn: "flagName' = flagName" using resolved by simp
  from direct(3) show ?thesis
  proof (cases rule: GetValue_noCache_paths)
    case (flags_failed err)
    with remote_ok fn show ?thesis by (simp add: failed_with_def)
  next
    case (flag_rejected flagList err)
    with direct(2,4) fn show ?thesis
      by (simp add: flag_records_def)
  next
    case (live_failed flagList cf err)
    with remote_ok show ?thesis by (simp add: failed_with_def)
  next
    case (merged_live flagList cf liveEventsList)
    with direct(2,4) fn show ?thesis
      by (simp add: flag_records_def event_records_def)
  next
    case (merged flagList cf)
    with direct(2,4) fn show ?thesis
      by (simp add: flag_records_def event_records_def apply_liveEvents_Nil)
  qed
next
  case (caching flagName')
  then have fn: "flagName' = flagName" using resolved by simp
  from caching(3) show ?thesis
  proof (cases rule: GetValue_cached_paths)
    case (flags_failed err)
    with remote_ok show ?thesis by (simp add: failed_with_def)
  next
    case (live_failed flagList err)
    with remote_ok show ?thesis by (simp add: failed_with_def)
  next
    case (stored_live flagList liveEventsList)
    with caching(2) fn show ?thesis
      by (simp add: flag_records_def event_records_def merge_cached_def split: sum.splits)
  next
    case (stored flagList)
    with caching(2) fn show ?thesis
      by (simp add: flag_records_def event_records_def merge_cached_def apply_liveEvents_Nil
          split: sum.splits)
  next
    case (hit_live_failed cacheEntry err)
    with remote_ok show ?thesis by (simp add: failed_with_def)
  next
    case (hit_filled cacheEntry liveEventsList)
    with caching(2) fn show ?thesis
      by (simp add: flag_records_def event_records_def merge_cached_def split: sum.splits)
  next
    case (hit cacheEntry)
    with caching(2) fn show ?thesis
      by (cases "liveEvents cacheEntry")
        (simp_all add: flag_records_def event_records_def merge_cached_def apply_liveEvents_Nil
          split: sum.splits)
  qed
qed


section \<open>Remote failures, the flag stage and the closed form of the result\<close>

lemma GetValue_cut_short:
  assumes call: "GetValue dec nk p ctx system userID = (r, p', calls)"
    and issued: "c \<in> set calls"
    and failed: "failed_with nk c = Some err"
  shows "r = remote_failure err \<and> c = last calls \<and> p' = p"
  using call
proof (cases rule: GetValue_paths)
  case unknown
  with issued show ?thesis by simp
next
  case (direct flagName)
  from direct(3) show ?thesis
    by (cases rule: GetValue_noCache_paths)
      (use issued failed direct(4) in \<open>auto simp: failed_with_def\<close>)
next
  case (caching flagName)
  from caching(3) show ?thesis
    by (cases rule: GetValue_cached_paths)
      (use issued failed in \<open>auto simp: failed_with_def\<close>)
qed

lemma GetValue_noCache_kept:
  assumes call: "GetValue dec nk p ctx system userID = (r, p', calls)"
  shows "noCache p' = noCache p"
  using call
proof (cases rule: GetValue_paths)
  case unknown
  then show ?thesis by simp
next
  case (direct flagName)
  then show ?thesis by simp
next
  case (caching flagName)
  from caching(3) show ?thesis
    by (cases rule: GetValue_cached_paths) simp_all
qed

lemma decode_flags_all_ok:
  assumes "\<forall>flag\<in>set ms. Name flag = flagName \<and> fst (dec (Value flag) (GetConfig system)) = None"
  shows "decode_flags dec system flagName ms cf =
    Inr (if ms = [] then cf else (Some (snd (dec (Value (last ms)) (GetConfig system))), True))"
  using assms
proof (induction ms arbitrary: cf)
  case Nil
  show ?case by (cases cf) simp
next
  case (Cons flag ms)
  obtain config found where cf: "cf = (config, found)" by (cases cf)
  obtain c where d: "dec (Value flag) (GetConfig system) = (None, c)"
    using Cons.prems by (cases "dec (Value flag) (GetConfig system)") auto
  have rest: "\<forall>flag\<in>set ms. Name flag = flagName \<and> fst (dec (Value flag) (GetConfig system)) = None"
    using Cons.prems by simp
  have name: "Name flag = flagName" using Cons.prems by simp
  show ?case
    using Cons.IH[OF rest, of "(Some c, True)"] cf d name by simp
qed

lemma decode_flags_first_failure:
  assumes "\<forall>f\<in>set pre. Name f = flagName \<and> fst (dec (Value f) (GetConfig system)) = None"
    and "Name flag = flagName"
    and "dec (Value flag) (GetConfig system) = (Some e, c')"
  shows "decode_flags dec system flagName (pre @ flag # rest) cf = Inl e"
  using assms(1)
proof (induction pre arbitrary: cf)
  case Nil
  obtain config found where "cf = (config, found)" by (cases cf)
  with assms(2,3) show ?case by simp
next
  case (Cons f pre)
  obtain config found where cf: "cf = (config, found)" by (cases cf)
  obtain c where d: "dec (Value f) (GetConfig system) = (None, c)"
    using Cons.prems by (cases "dec (Value f) (GetConfig system)") auto
  have later: "\<forall>f\<in>set pre. Name f = flagName \<and> fst (dec (Value f) (GetConfig system)) = None"
    using Cons.prems by simp
  have name: "Name f = flagName" using Cons.prems by simp
  show ?case
    using Cons.IH[OF later, of "(Some c, True)"] cf d name by simp
qed

lemma flag_stage_ok:
  assumes ok: "\<forall>flag\<in>set (matched_flags direct flagName fs).
      fst (dec (Value flag) (GetConfig system)) = None"
  shows "(if direct then decode_first_flag dec system fs
          else decode_flags dec system flagName fs (None, False))
    = Inr (if matched_flags direct flagName fs = [] then None
           else Some (after_flags dec system (matched_flags direct flagName fs)),
           matched_flags direct flagName fs \<noteq> [])"
proof (cases direct)
  case True
  show ?thesis
  proof (cases fs)
    case Nil
    with True show ?thesis by (simp add: decode_first_flag_def matched_flags_def)
  next
    case (Cons flag rest)
    then obtain c where d: "dec (Value flag) (GetConfig system) = (None, c)"
      using ok True
      by (cases "dec (Value flag) (GetConfig system)") (auto simp: matched_flags_def)
    with True Cons show ?thesis
      by (simp add: decode_first_flag_def matched_flags_def after_flags_def)
  qed
next
  case False
  let ?ms = "filter (\<lambda>flag. Name flag = flagName) fs"
  have all: "\<forall>flag\<in>set ?ms. Name flag = flagName \<and> fst (dec (Value flag) (GetConfig system)) = None"
    using ok False by (simp add: matched_flags_def)
  have "decode_flags dec system flagName fs (None, False)
      = decode_flags dec system flagName ?ms (None, False)"
    by (rule decode_flags_filter)
  also have "\<dots> = Inr (if ?ms = [] then (None, False)
       else (Some (snd (dec (Value (last ?ms)) (GetConfig system))), True))"
    by (rule decode_flags_all_ok[where dec = dec and system = system, OF all])
  finally show ?thesis
    using False by (cases ?ms) (simp_all add: matched_flags_def after_flags_def)
qed

lemma flag_stage_rejected:
  assumes m: "matched_flags direct flagName fs = flag # rest"
    and d: "dec (Value flag) (GetConfig system) = (Some e, c')"
  shows "(if direct then decode_first_flag dec system fs
          else decode_flags dec system flagName fs (None, False)) = Inl e"
proof (cases direct)
  case True
  with m obtain tl where "fs = flag # tl"
    by (cases fs) (auto simp: matched_flags_def)
  with True d show ?thesis by (simp add: decode_first_flag_def)
next
  case False
  with m have "filter (\<lambda>flag. Name flag = flagName) fs = flag # rest"
    by (simp add: matched_flags_def)
  from decode_flags_rejected[where dec = dec and system = system, OF this d] False
  show ?thesis by simp
qed

lemma GetValue_flag_rejected:
  assumes call: "GetValue dec nk p ctx system userID = (r, p', calls)"
    and resolved: "flagName_of (GetType system) = Some flagName"
    and remote_ok: "\<forall>c\<in>set calls. failed_with nk c = None"
    and m: "matched_flags (noCache p) flagName (flag_records nk p' ctx userID flagName)
              = flag # rest"
    and d: "dec (Value flag) (GetConfig system) = (Some e, c')"
  shows "r = (None, Some e)"
  using GetValue_merged[OF call resolved remote_ok]
    flag_stage_rejected[where dec = dec and system = system, OF m d]
  by simp

lemma GetValue_personalized:
  assumes call: "GetValue dec nk p ctx system userID = (r, p', calls)"
    and resolved: "flagName_of (GetType system) = Some flagName"
    and remote_ok: "\<forall>c\<in>set calls. failed_with nk c = None"
    and ok: "\<forall>flag\<in>set (matched_flags (noCache p) flagName
                (flag_records nk p' ctx userID flagName)).
              fst (dec (Value flag) (GetConfig system)) = None"
    and matched: "matched = matched_flags (noCache p) flagName
                (flag_records nk p' ctx userID flagName)"
    and evs: "evs = event_records nk p' ctx system userID"
  shows "r =
    (if matched \<noteq> [] \<or> (\<exists>i<length evs. decodes_ok dec (after_flags dec system matched) evs i)
     then (Some (foldl (written dec) (after_flags dec system matched) evs), None)
     else (None, None))"
proof -
  have r: "r = finish (apply_liveEvents dec system evs
      (if matched = [] then None else Some (after_flags dec system matched), matched \<noteq> []))"
    using GetValue_merged[OF call resolved remote_ok]
      flag_stage_ok[where dec = dec and system = system, OF ok] matched evs
    by simp
  show ?thesis
  proof (cases evs)
    case Nil
    with r show ?thesis
      by (simp add: apply_liveEvents_Nil finish_def)
  next
    case (Cons ev rest)
    then have ne: "evs \<noteq> []" by simp
    show ?thesis
      unfolding r apply_liveEvents_eq[OF ne]
      by (cases matched) (simp_all add: finish_def Let_def after_flags_def)
  qed
qed


section \<open>The claims\<close>

text \<open>
  C4. For every call of \<open>GetValue\<close>: if a remote lookup that the call issues (the flag
  list or the live-event list) fails and the text of the error contains
  \<open>404 status code\<close>, the call returns \<open>(nil, nil)\<close>; if it fails with any other error,
  the call returns \<open>nil\<close> and that very error. In both cases the failed lookup is
  the last thing the call asks of the remote source.
\<close>

theorem remote_failure_returned:
  assumes call: "GetValue dec nk p ctx system userID = (r, p', calls)"
    and issued: "c \<in> set calls"
    and failed: "failed_with nk c = Some err"
  shows "(is404 err \<longrightarrow> r = (None, None)) \<and> (\<not> is404 err \<longrightarrow> r = (None, Some err))
    \<and> c = last calls"
proof -
  have "r = remote_failure err \<and> c = last calls"
    using call
  proof (cases rule: GetValue_paths)
    case unknown
    with issued show ?thesis by simp
  next
    case (direct flagName)
    from direct(3) show ?thesis
      by (cases rule: GetValue_noCache_paths)
        (use issued failed in \<open>auto simp: failed_with_def\<close>)
  next
    case (caching flagName)
    from caching(3) show ?thesis
      by (cases rule: GetValue_cached_paths)
        (use issued failed in \<open>auto simp: failed_with_def\<close>)
  qed
  then show ?thesis by (simp add: remote_failure_def)
qed

text \<open>
  C4 at concrete inputs: a client that fails with the 404 text, caching on, and one that
  fails with another status, caching off.
\<close>

theorem remote_failure_returned_witness:
  "fst (GetValue (Decode AchievementsConfig_setField) (failing (RemoteError ''404 status code''))
         (NewSatoriPersonalizer False) 0 achievements ''user'') = (None, None)
   \<and> fst (GetValue (Decode AchievementsConfig_setField) (failing (RemoteError ''500 status code''))
         (NewSatoriPersonalizer True) 0 achievements ''user'')
       = (None, Some (RemoteError ''500 status code''))"
proof -
  let ?dec = "Decode AchievementsConfig_setField"
  let ?e1 = "RemoteError ''404 status code''"
  let ?e2 = "RemoteError ''500 status code''"
  obtain r1 p1 calls1 where c1:
    "GetValue ?dec (failing ?e1) (NewSatoriPersonalizer False) 0 achievements ''user''
       = (r1, p1, calls1)"
    by (metis prod_cases3)
  have calls1: "calls1 = [FlagsListCall 0 ''user'' allFlagNames]"
    using c1 by (simp add: GetValue_def GetValue_cached_def lookup_or_fetch_def fixture_defs)
  have i1: "FlagsListCall 0 ''user'' allFlagNames \<in> set calls1"
    by (simp add: calls1)
  have f1: "failed_with (failing ?e1) (FlagsListCall 0 ''user'' allFlagNames) = Some ?e1"
    by (simp add: failed_with_def failing_def)
  have n1: "is404 ?e1" by (simp add: is404_def)
  obtain r2 p2 calls2 where c2:
    "GetValue ?dec (failing ?e2) (NewSatoriPersonalizer True) 0 achievements ''user''
       = (r2, p2, calls2)"
    by (metis prod_cases3)
  have calls2: "calls2 = [FlagsListCall 0 ''user'' [''Hiro-Achievements'']]"
    using c2 by (simp add: GetValue_def GetValue_noCache_def fixture_defs)
  have i2: "FlagsListCall 0 ''user'' [''Hiro-Achievements''] \<in> set calls2"
    by (simp add: calls2)
  have f2: "failed_with (failing ?e2) (FlagsListCall 0 ''user'' [''Hiro-Achievements'']) = Some ?e2"
    by (simp add: failed_with_def failing_def)
  have n2: "\<not> is404 ?e2" by (simp add: is404_def)
  from remote_failure_returned[OF c1 i1 f1] remote_failure_returned[OF c2 i2 f2] n1 n2 c1 c2
  show ?thesis by simp
qed


text \<open>
  C6, as stated, fails without the cache: the Achievements system and a remote source
  that answers the lookup of \<open>Hiro-Achievements\<close> with one record named \<open>Hiro-Base\<close>.
  No record bears the resolved name and there is no live event, and yet the call
  returns the object with the payload of that record merged in, since lines 293 to 302
  decode \<open>Flags[0]\<close> without looking at its name.
\<close>

theorem no_record_no_personalization_counterexample:
  "fst (GetValue (Decode AchievementsConfig_setField)
     (answering_anyway [\<lparr>Name = ''Hiro-Base'', Value = flag_payload\<rparr>] [])
     (NewSatoriPersonalizer True) 0 achievements ''user'') = (Some \<lparr>rewardMultiplier = 2\<rparr>, None)
   \<and> flagName_of (GetType achievements) = Some ''Hiro-Achievements''"
  by (simp add: GetValue_eval Decode_eval fixture_defs)

text \<open>
  C6, amended. For every call of \<open>GetValue\<close> that returns no error: if the flag stage has
  no record to decode (with the cache, no flag record of the entry bears the resolved
  flag name; without the cache, the answer to the flag lookup is empty) and no
  live-event record decodes without error in the run of the loop, the call returns
  \<open>(nil, nil)\<close>.
\<close>

theorem no_record_no_personalization:
  assumes call: "GetValue dec nk p ctx system userID = ((config, err), p', calls)"
    and no_error: "err = None"
    and resolved: "flagName_of (GetType system) = Some flagName"
    and no_flag_direct: "noCache p \<longrightarrow> flag_records nk p' ctx userID flagName = []"
    and no_flag_cached: "\<not> noCache p
      \<longrightarrow> (\<forall>flag\<in>set (flag_records nk p' ctx userID flagName). Name flag \<noteq> flagName)"
    and no_event: "\<forall>i<length (event_records nk p' ctx system userID).
        \<not> decodes_ok dec (GetConfig system) (event_records nk p' ctx system userID) i"
  shows "(config, err) = (None, None)"
proof (cases "\<forall>c\<in>set calls. failed_with nk c = None")
  case False
  then obtain c e where "c \<in> set calls" "failed_with nk c = Some e" by auto
  from GetValue_cut_short[OF call this] no_error show ?thesis
    by (simp add: remote_failure_def split: if_splits)
next
  case True
  have none: "matched_flags (noCache p) flagName (flag_records nk p' ctx userID flagName) = []"
  proof (cases "noCache p")
    case True
    with no_flag_direct show ?thesis by (simp add: matched_flags_def)
  next
    case False
    with no_flag_cached show ?thesis
      by (simp add: matched_flags_def filter_empty_conv)
  qed
  show ?thesis
    using GetValue_personalized[where dec = dec, OF call resolved True _ refl refl] none no_event
    by (simp add: after_flags_def)
qed

text \<open>
  C6 at concrete inputs: the Achievements system and one live event that names an
  unknown field; with the cache, a list of flags that holds only the flag of the Base
  system; without the cache, an empty answer to the flag lookup.
\<close>

theorem no_record_no_personalization_witness:
  "fst (GetValue (Decode AchievementsConfig_setField)
     (answering [\<lparr>Name = ''Hiro-Base'', Value = flag_payload\<rparr>] [\<lparr>EventValue = stray_payload\<rparr>])
     (NewSatoriPersonalizer False) 0 achievements ''user'') = (None, None)
   \<and> fst (GetValue (Decode AchievementsConfig_setField)
     (answering [\<lparr>Name = ''Hiro-Base'', Value = flag_payload\<rparr>] [\<lparr>EventValue = stray_payload\<rparr>])
     (NewSatoriPersonalizer True) 0 achievements ''user'') = (None, None)"
proof -
  let ?dec = "Decode AchievementsConfig_setField"
  let ?nk = "answering [\<lparr>Name = ''Hiro-Base'', Value = flag_payload\<rparr>]
    [\<lparr>EventValue = stray_payload\<rparr>]"
  define res where "res = GetValue ?dec ?nk (NewSatoriPersonalizer False) 0 achievements ''user''"
  define res' where "res' = GetValue ?dec ?nk (NewSatoriPersonalizer True) 0 achievements ''user''"
  have call: "GetValue ?dec ?nk (NewSatoriPersonalizer False) 0 achievements ''user''
      = ((fst (fst res), snd (fst res)), fst (snd res), snd (snd res))"
    by (simp add: res_def)
  have call': "GetValue ?dec ?nk (NewSatoriPersonalizer True) 0 achievements ''user''
      = ((fst (fst res'), snd (fst res')), fst (snd res'), snd (snd res'))"
    by (simp add: res'_def)
  have res: "res = ((None, None),
      \<lparr>noCache = False,
       cache = [0 \<mapsto> \<lparr>flags = \<lparr>Flags = [\<lparr>Name = ''Hiro-Base'', Value = flag_payload\<rparr>]\<rparr>,
                      liveEvents = Some \<lparr>LiveEvents = [\<lparr>EventValue = stray_payload\<rparr>]\<rparr>\<rparr>]\<rparr>,
      [FlagsListCall 0 ''user'' allFlagNames, LiveEventsListCall 0 ''user''])"
    unfolding res_def by (simp add: GetValue_eval Decode_eval fixture_defs)
  have res': "res' = ((None, None), NewSatoriPersonalizer True,
      [FlagsListCall 0 ''user'' [''Hiro-Achievements''], LiveEventsListCall 0 ''user''])"
    unfolding res'_def by (simp add: GetValue_eval Decode_eval fixture_defs)
  have no_error: "snd (fst res) = None" "snd (fst res') = None"
    by (simp_all add: res res')
  have resolved: "flagName_of (GetType achievements) = Some ''Hiro-Achievements''"
    by (simp add: achievements_def)
  have direct: "noCache (NewSatoriPersonalizer False)
      \<longrightarrow> flag_records ?nk (fst (snd res)) 0 ''user'' ''Hiro-Achievements'' = []"
    by (simp add: NewSatoriPersonalizer_def)
  have cached: "\<not> noCache (NewSatoriPersonalizer False)
      \<longrightarrow> (\<forall>flag\<in>set (flag_records ?nk (fst (snd res)) 0 ''user'' ''Hiro-Achievements'').
            Name flag \<noteq> ''Hiro-Achievements'')"
    by (simp add: res flag_records_def)
  have no_event: "\<forall>i<length (event_records ?nk (fst (snd res)) 0 achievements ''user'').
      \<not> decodes_ok ?dec (GetConfig achievements)
          (event_records ?nk (fst (snd res)) 0 achievements ''user'') i"
    by (simp add: res event_records_def decodes_ok_def Decode_eval achievements_def)
  have direct': "noCache (NewSatoriPersonalizer True)
      \<longrightarrow> flag_records ?nk (fst (snd res')) 0 ''user'' ''Hiro-Achievements'' = []"
    by (simp add: res' flag_records_def NewSatoriPersonalizer_def answering_def)
  have cached': "\<not> noCache (NewSatoriPersonalizer True)
      \<longrightarrow> (\<forall>flag\<in>set (flag_records ?nk (fst (snd res')) 0 ''user'' ''Hiro-Achievements'').
            Name flag \<noteq> ''Hiro-Achievements'')"
    by (simp add: NewSatoriPersonalizer_def)
  have no_event': "\<forall>i<length (event_records ?nk (fst (snd res')) 0 achievements ''user'').
      \<not> decodes_ok ?dec (GetConfig achievements)
          (event_records ?nk (fst (snd res')) 0 achievements ''user'') i"
    by (simp add: res' event_records_def decodes_ok_def Decode_eval achievements_def
        NewSatoriPersonalizer_def answering_def needsLiveEvents_def)
  have one: "(fst (fst res), snd (fst res)) = (None, None)"
    by (rule no_record_no_personalization[OF call no_error(1) resolved direct cached no_event])
  have two: "(fst (fst res'), snd (fst res')) = (None, None)"
    by (rule no_record_no_personalization[OF call' no_error(2) resolved direct' cached'
        no_event'])
  from one two show ?thesis
    unfolding res_def res'_def by (simp add: prod_eq_iff)
qed

text \<open>
  C2, as stated, fails with the cache, where the live events are fetched (lines 347 to
  357 on a miss, 372 to 383 on a hit) before the flag is decoded (lines 387 to 400). The
  flag of the Achievements system has the unknown key \<open>bogus\<close>, and the lookup of the live
  events fails with the 404 text: the call returns \<open>(nil, nil)\<close>, not the decode error,
  both on a miss and on a hit of an entry that a call for the Base system has stored.
\<close>

theorem decode_errors_counterexample:
  "fst (GetValue (Decode AchievementsConfig_setField)
     (answering_flags_only [\<lparr>Name = ''Hiro-Achievements'', Value = stray_payload\<rparr>]
        (RemoteError ''404 status code''))
     (NewSatoriPersonalizer False) 0 achievements ''user'') = (None, None)
   \<and> fst (GetValue (Decode AchievementsConfig_setField)
     (answering_flags_only [\<lparr>Name = ''Hiro-Achievements'', Value = stray_payload\<rparr>]
        (RemoteError ''404 status code''))
     (fst (snd (GetValue (Decode AchievementsConfig_setField)
        (answering_flags_only [\<lparr>Name = ''Hiro-Achievements'', Value = stray_payload\<rparr>]
           (RemoteError ''404 status code''))
        (NewSatoriPersonalizer False) 0 base ''user'')))
     0 achievements ''user'') = (None, None)
   \<and> cache (fst (snd (GetValue (Decode AchievementsConfig_setField)
        (answering_flags_only [\<lparr>Name = ''Hiro-Achievements'', Value = stray_payload\<rparr>]
           (RemoteError ''404 status code''))
        (NewSatoriPersonalizer False) 0 base ''user''))) 0
       = Some \<lparr>flags = \<lparr>Flags = [\<lparr>Name = ''Hiro-Achievements'', Value = stray_payload\<rparr>]\<rparr>,
               liveEvents = None\<rparr>
   \<and> fst (Decode AchievementsConfig_setField stray_payload (GetConfig achievements))
       = Some (unknown_field ''bogus'')"
  by (simp add: GetValue_eval Decode_eval fixture_defs)

text \<open>
  C2, amended. For every call of \<open>GetValue\<close> that no failed remote lookup ends first: if
  the decode of the matched flag's payload returns an error (as it does for a field the
  ConfigObject does not have), the call returns \<open>nil\<close> and that error. If the matched
  flags decode, no decode error of a live-event record is returned: the error of the
  call is \<open>nil\<close>, and as soon as any one live-event record decodes, whatever failed
  before it, the call returns the object on which every record has been decoded in
  turn. In the loop, a record whose decode fails leaves \<open>found\<close> as it was and the loop
  goes on with the records that follow.
\<close>

theorem decode_errors:
  assumes call: "GetValue dec nk p ctx system userID = (r, p', calls)"
    and resolved: "flagName_of (GetType system) = Some flagName"
    and remote_ok: "\<forall>c\<in>set calls. failed_with nk c = None"
    and matched: "matched = matched_flags (noCache p) flagName
        (flag_records nk p' ctx userID flagName)"
    and evs: "evs = event_records nk p' ctx system userID"
  shows "(\<forall>flag rest e c'. matched = flag # rest
            \<longrightarrow> dec (Value flag) (GetConfig system) = (Some e, c') \<longrightarrow> r = (None, Some e))
    \<and> ((\<forall>flag\<in>set matched. fst (dec (Value flag) (GetConfig system)) = None)
         \<longrightarrow> snd r = None
           \<and> (\<forall>i<length evs. decodes_ok dec (after_flags dec system matched) evs i
                 \<longrightarrow> r = (Some (foldl (written dec) (after_flags dec system matched) evs), None)))
    \<and> (\<forall>ev later c found e c'. dec (EventValue ev) c = (Some e, c')
         \<longrightarrow> decode_liveEvents dec (ev # later) (c, found)
               = decode_liveEvents dec later (c', found))"
proof (intro conjI allI impI)
  fix flag rest e c'
  assume "matched = flag # rest" "dec (Value flag) (GetConfig system) = (Some e, c')"
  then show "r = (None, Some e)"
    using GetValue_flag_rejected[where dec = dec, OF call resolved remote_ok] matched by simp
next
  assume ok: "\<forall>flag\<in>set matched. fst (dec (Value flag) (GetConfig system)) = None"
  then have ok': "\<forall>flag\<in>set (matched_flags (noCache p) flagName
      (flag_records nk p' ctx userID flagName)). fst (dec (Value flag) (GetConfig system)) = None"
    using matched by simp
  note closed_form = GetValue_personalized[where dec = dec, OF call resolved remote_ok ok' matched evs]
  show "snd r = None"
    unfolding closed_form by simp
  fix i
  assume "i < length evs" "decodes_ok dec (after_flags dec system matched) evs i"
  then show "r = (Some (foldl (written dec) (after_flags dec system matched) evs), None)"
    unfolding closed_form by auto
next
  fix ev :: LiveEvent and later c found e c'
  assume "dec (EventValue ev) c = (Some e, c')"
  then show "decode_liveEvents dec (ev # later) (c, found)
      = decode_liveEvents dec later (c', found)"
    by simp
qed


text \<open>
  C2 at concrete inputs: with the cache, a flag of the resolved name whose payload has
  the unknown key \<open>bogus\<close>; without it, no flag and two live events, the
  first with the unknown key, the second well-formed.
\<close>

theorem decode_errors_witness:
  "fst (GetValue (Decode AchievementsConfig_setField)
     (answering [\<lparr>Name = ''Hiro-Achievements'', Value = stray_payload\<rparr>] [])
     (NewSatoriPersonalizer False) 0 achievements ''user'') = (None, Some (unknown_field ''bogus''))
   \<and> fst (GetValue (Decode AchievementsConfig_setField)
     (answering [] [\<lparr>EventValue = stray_payload\<rparr>, \<lparr>EventValue = event_payload\<rparr>])
     (NewSatoriPersonalizer True) 0 achievements ''user'') = (Some \<lparr>rewardMultiplier = 3\<rparr>, None)"
proof -
  let ?dec = "Decode AchievementsConfig_setField"
  let ?nk1 = "answering [\<lparr>Name = ''Hiro-Achievements'', Value = stray_payload\<rparr>] []"
  let ?nk2 = "answering [] [\<lparr>EventValue = stray_payload\<rparr>, \<lparr>EventValue = event_payload\<rparr>]"
  define res1 where
    "res1 = GetValue ?dec ?nk1 (NewSatoriPersonalizer False) 0 achievements ''user''"
  define res2 where
    "res2 = GetValue ?dec ?nk2 (NewSatoriPersonalizer True) 0 achievements ''user''"
  have call1: "GetValue ?dec ?nk1 (NewSatoriPersonalizer False) 0 achievements ''user''
      = (fst res1, fst (snd res1), snd (snd res1))"
    by (simp add: res1_def)
  have call2: "GetValue ?dec ?nk2 (NewSatoriPersonalizer True) 0 achievements ''user''
      = (fst res2, fst (snd res2), snd (snd res2))"
    by (simp add: res2_def)
  have snd1: "snd res1 = (\<lparr>noCache = False,
       cache = [0 \<mapsto> \<lparr>flags = \<lparr>Flags = [\<lparr>Name = ''Hiro-Achievements'', Value = stray_payload\<rparr>]\<rparr>,
                      liveEvents = Some \<lparr>LiveEvents = []\<rparr>\<rparr>]\<rparr>,
      [FlagsListCall 0 ''user'' allFlagNames, LiveEventsListCall 0 ''user''])"
    unfolding res1_def by (simp add: GetValue_eval Decode_eval fixture_defs)
  have snd2: "snd res2 = (NewSatoriPersonalizer True,
      [FlagsListCall 0 ''user'' [''Hiro-Achievements''], LiveEventsListCall 0 ''user''])"
    unfolding res2_def by (simp add: GetValue_eval Decode_eval fixture_defs)
  have resolved: "flagName_of (GetType achievements) = Some ''Hiro-Achievements''"
    by (simp add: achievements_def)
  have ok1: "\<forall>c\<in>set (snd (snd res1)). failed_with ?nk1 c = None"
    by (simp add: snd1 failed_with_def answering_def)
  have ok2: "\<forall>c\<in>set (snd (snd res2)). failed_with ?nk2 c = None"
    by (simp add: snd2 failed_with_def answering_def)
  have m1: "matched_flags (noCache (NewSatoriPersonalizer False)) ''Hiro-Achievements''
      (flag_records ?nk1 (fst (snd res1)) 0 ''user'' ''Hiro-Achievements'')
      = [\<lparr>Name = ''Hiro-Achievements'', Value = stray_payload\<rparr>]"
    by (simp add: snd1 matched_flags_def flag_records_def NewSatoriPersonalizer_def)
  have d1: "?dec (Value \<lparr>Name = ''Hiro-Achievements'', Value = stray_payload\<rparr>)
      (GetConfig achievements) = (Some (unknown_field ''bogus''), \<lparr>rewardMultiplier = 7\<rparr>)"
    by (simp add: Decode_eval achievements_def)
  have m2: "matched_flags (noCache (NewSatoriPersonalizer True)) ''Hiro-Achievements''
      (flag_records ?nk2 (fst (snd res2)) 0 ''user'' ''Hiro-Achievements'') = []"
    by (simp add: snd2 matched_flags_def flag_records_def NewSatoriPersonalizer_def answering_def)
  have e2: "event_records ?nk2 (fst (snd res2)) 0 achievements ''user''
      = [\<lparr>EventValue = stray_payload\<rparr>, \<lparr>EventValue = event_payload\<rparr>]"
    by (simp add: snd2 event_records_def NewSatoriPersonalizer_def answering_def
        achievements_def needsLiveEvents_def)
  have second_ok: "decodes_ok ?dec (after_flags ?dec achievements [])
      [\<lparr>EventValue = stray_payload\<rparr>, \<lparr>EventValue = event_payload\<rparr>] 1"
    by (simp add: decodes_ok_def written_def after_flags_def Decode_eval achievements_def)
  have merged: "foldl (written ?dec) (after_flags ?dec achievements [])
      [\<lparr>EventValue = stray_payload\<rparr>, \<lparr>EventValue = event_payload\<rparr>] = \<lparr>rewardMultiplier = 3\<rparr>"
    by (simp add: written_def after_flags_def Decode_eval achievements_def)
  have "fst res1 = (None, Some (unknown_field ''bogus''))"
    using decode_errors[where dec = ?dec, OF call1 resolved ok1 m1[symmetric] refl] d1
    by blast
  moreover have "fst res2 = (Some \<lparr>rewardMultiplier = 3\<rparr>, None)"
  proof -
    have len: "1 < length [\<lparr>EventValue = stray_payload\<rparr>, \<lparr>EventValue = event_payload\<rparr>]"
      by simp
    have no_flags: "\<forall>flag\<in>set ([] :: Flag list).
        fst (?dec (Value flag) (GetConfig achievements)) = None"
      by simp
    have "fst res2 = (Some (foldl (written ?dec) (after_flags ?dec achievements [])
        [\<lparr>EventValue = stray_payload\<rparr>, \<lparr>EventValue = event_payload\<rparr>]), None)"
      using decode_errors[where dec = ?dec, OF call2 resolved ok2 m2[symmetric] e2[symmetric]]
        second_ok len no_flags
      by blast
    then show ?thesis by (simp only: merged)
  qed
  ultimately show ?thesis
    unfolding res1_def res2_def by simp
qed


text \<open>
  C1, as stated, fails: the flag \<open>{"rewardMultiplier": 2}\<close> and the live events
  \<open>{"rewardMultiplier": 3}\<close> and \<open>{"rewardMultiplier": 7, "bogus": 1}\<close>, in this order.
  The last live event that decodes without error is the first one, which stores 3; the
  second one is passed over for its unknown key, after it has stored 7, and the call
  returns the object with 7.
\<close>

theorem merge_order_counterexample:
  "fst (GetValue (Decode AchievementsConfig_setField)
     (answering [\<lparr>Name = ''Hiro-Achievements'', Value = flag_payload\<rparr>]
        [\<lparr>EventValue = event_payload\<rparr>, \<lparr>EventValue = stray_payload\<rparr>])
     (NewSatoriPersonalizer False) 0 achievements ''user'') = (Some \<lparr>rewardMultiplier = 7\<rparr>, None)
   \<and> Decode AchievementsConfig_setField flag_payload (GetConfig achievements)
       = (None, \<lparr>rewardMultiplier = 2\<rparr>)
   \<and> Decode AchievementsConfig_setField event_payload \<lparr>rewardMultiplier = 2\<rparr>
       = (None, \<lparr>rewardMultiplier = 3\<rparr>)
   \<and> Decode AchievementsConfig_setField stray_payload \<lparr>rewardMultiplier = 3\<rparr>
       = (Some (unknown_field ''bogus''), \<lparr>rewardMultiplier = 7\<rparr>)"
  by (simp add: GetValue_eval Decode_eval fixture_defs)


text \<open>The last record that writes a field decides it.\<close>

lemma foldl_keeps_field:
  assumes "\<forall>ev\<in>set evs. \<forall>c. field (w c ev) = field c"
  shows "field (foldl w c evs) = field c"
  using assms by (induction evs arbitrary: c) simp_all

lemma foldl_last_writer:
  assumes sets: "\<forall>c. field (w c ev) = v"
    and keeps: "\<forall>ev'\<in>set later. \<forall>c. field (w c ev') = field c"
  shows "field (foldl w c (earlier @ ev # later)) = v"
proof -
  have "field (foldl w c (earlier @ ev # later)) = field (w (foldl w c earlier) ev)"
    using foldl_keeps_field[where w = w and field = field, OF keeps] by simp
  then show ?thesis using sets by simp
qed

text \<open>
  C1, amended. For every call of \<open>GetValue\<close> that no failed remote lookup cuts short, in
  which one flag is matched and decodes, and there is at least one live event: the call
  returns the object obtained by decoding the flag onto \<open>system.GetConfig()\<close> and then
  every live-event payload, in fetch order, onto that same object. So a field holds the
  value stored by a live-event record whenever every record after it leaves the field
  as it is; a later record that is passed over for a decode error may have written it.
  In the spec's scenario (Achievements, flag \<open>{"rewardMultiplier": 2}\<close>, one live event
  \<open>{"rewardMultiplier": 3}\<close>) the returned object has \<open>rewardMultiplier = 3\<close>, with and
  without the cache.
\<close>

theorem merge_order:
  assumes call: "GetValue dec nk p ctx system userID = (r, p', calls)"
    and resolved: "flagName_of (GetType system) = Some flagName"
    and remote_ok: "\<forall>c\<in>set calls. failed_with nk c = None"
    and one_flag: "matched_flags (noCache p) flagName
        (flag_records nk p' ctx userID flagName) = [flag]"
    and flag_ok: "dec (Value flag) (GetConfig system) = (None, c1)"
    and evs: "event_records nk p' ctx system userID = evs"
    and some_event: "evs \<noteq> []"
  shows "r = (Some (foldl (written dec) c1 evs), None)
    \<and> (\<forall>earlier ev later. evs = earlier @ ev # later
          \<longrightarrow> (\<forall>c. field (written dec c ev) = v)
          \<longrightarrow> (\<forall>ev'\<in>set later. \<forall>c. field (written dec c ev') = field c)
          \<longrightarrow> field (foldl (written dec) c1 evs) = v)
    \<and> fst (GetValue (Decode AchievementsConfig_setField)
          (answering [\<lparr>Name = ''Hiro-Achievements'', Value = flag_payload\<rparr>]
             [\<lparr>EventValue = event_payload\<rparr>])
          (NewSatoriPersonalizer True) 0 achievements ''user'')
        = (Some \<lparr>rewardMultiplier = 3\<rparr>, None)
    \<and> fst (GetValue (Decode AchievementsConfig_setField)
          (answering [\<lparr>Name = ''Hiro-Achievements'', Value = flag_payload\<rparr>]
             [\<lparr>EventValue = event_payload\<rparr>])
          (NewSatoriPersonalizer False) 0 achievements ''user'')
        = (Some \<lparr>rewardMultiplier = 3\<rparr>, None)"
proof (intro conjI allI impI)
  have ok: "\<forall>f\<in>set (matched_flags (noCache p) flagName
      (flag_records nk p' ctx userID flagName)). fst (dec (Value f) (GetConfig system)) = None"
    using one_flag flag_ok by simp
  have start: "after_flags dec system [flag] = c1"
    using flag_ok by (simp add: after_flags_def)
  show "r = (Some (foldl (written dec) c1 evs), None)"
    using GetValue_personalized[where dec = dec, OF call resolved remote_ok ok
        one_flag[symmetric] evs[symmetric]] start
    by simp
next
  fix earlier ev later
  assume "evs = earlier @ ev # later" "\<forall>c. field (written dec c ev) = v"
    "\<forall>ev'\<in>set later. \<forall>c. field (written dec c ev') = field c"
  then show "field (foldl (written dec) c1 evs) = v"
    using foldl_last_writer[where w = "written dec" and field = field] by simp
next
  show "fst (GetValue (Decode AchievementsConfig_setField)
          (answering [\<lparr>Name = ''Hiro-Achievements'', Value = flag_payload\<rparr>]
             [\<lparr>EventValue = event_payload\<rparr>])
          (NewSatoriPersonalizer True) 0 achievements ''user'')
        = (Some \<lparr>rewardMultiplier = 3\<rparr>, None)"
    by (simp add: GetValue_eval Decode_eval fixture_defs)
next
  show "fst (GetValue (Decode AchievementsConfig_setField)
          (answering [\<lparr>Name = ''Hiro-Achievements'', Value = flag_payload\<rparr>]
             [\<lparr>EventValue = event_payload\<rparr>])
          (NewSatoriPersonalizer False) 0 achievements ''user'')
        = (Some \<lparr>rewardMultiplier = 3\<rparr>, None)"
    by (simp add: GetValue_eval Decode_eval fixture_defs)
qed

text \<open>
  C1 at concrete inputs: the scenario followed by a live event with the empty object,
  without the cache.
\<close>

theorem merge_order_witness:
  "map_option rewardMultiplier (fst (fst (GetValue (Decode AchievementsConfig_setField)
     (answering [\<lparr>Name = ''Hiro-Achievements'', Value = flag_payload\<rparr>]
        [\<lparr>EventValue = event_payload\<rparr>, \<lparr>EventValue = empty_payload\<rparr>])
     (NewSatoriPersonalizer True) 0 achievements ''user''))) = Some 3"
proof -
  let ?dec = "Decode AchievementsConfig_setField"
  let ?flag = "\<lparr>Name = ''Hiro-Achievements'', Value = flag_payload\<rparr>"
  let ?evs = "[\<lparr>EventValue = event_payload\<rparr>, \<lparr>EventValue = empty_payload\<rparr>]"
  let ?nk = "answering [?flag] ?evs"
  define res where "res = GetValue ?dec ?nk (NewSatoriPersonalizer True) 0 achievements ''user''"
  have call: "GetValue ?dec ?nk (NewSatoriPersonalizer True) 0 achievements ''user''
      = (fst res, fst (snd res), snd (snd res))"
    by (simp add: res_def)
  have rest: "snd res = (NewSatoriPersonalizer True,
      [FlagsListCall 0 ''user'' [''Hiro-Achievements''], LiveEventsListCall 0 ''user''])"
    unfolding res_def by (simp add: GetValue_eval Decode_eval fixture_defs)
  have resolved: "flagName_of (GetType achievements) = Some ''Hiro-Achievements''"
    by (simp add: achievements_def)
  have remote_ok: "\<forall>c\<in>set (snd (snd res)). failed_with ?nk c = None"
    by (simp add: rest failed_with_def answering_def)
  have one_flag: "matched_flags (noCache (NewSatoriPersonalizer True)) ''Hiro-Achievements''
      (flag_records ?nk (fst (snd res)) 0 ''user'' ''Hiro-Achievements'') = [?flag]"
    by (simp add: rest matched_flags_def flag_records_def NewSatoriPersonalizer_def
        answering_def)
  have flag_ok: "?dec (Value ?flag) (GetConfig achievements) = (None, \<lparr>rewardMultiplier = 2\<rparr>)"
    by (simp add: Decode_eval achievements_def)
  have evs: "event_records ?nk (fst (snd res)) 0 achievements ''user'' = ?evs"
    by (simp add: rest event_records_def NewSatoriPersonalizer_def answering_def
        achievements_def needsLiveEvents_def)
  have some_event: "?evs \<noteq> []" by simp
  note th = merge_order[where dec = ?dec and field = rewardMultiplier and v = 3,
      OF call resolved remote_ok one_flag flag_ok evs some_event]
  have split: "?evs = [] @ \<lparr>EventValue = event_payload\<rparr> # [\<lparr>EventValue = empty_payload\<rparr>]"
    by simp
  have sets: "\<forall>c. rewardMultiplier (written ?dec c \<lparr>EventValue = event_payload\<rparr>) = 3"
    by (simp add: written_def Decode_eval)
  have keeps: "\<forall>ev'\<in>set [\<lparr>EventValue = empty_payload\<rparr>].
      \<forall>c. rewardMultiplier (written ?dec c ev') = rewardMultiplier c"
    by (simp add: written_def Decode_eval)
  have r: "fst res = (Some (foldl (written ?dec) \<lparr>rewardMultiplier = 2\<rparr> ?evs), None)"
    using th by blast
  have "rewardMultiplier (foldl (written ?dec) \<lparr>rewardMultiplier = 2\<rparr> ?evs) = 3"
    using th split sets keeps by blast
  with r show ?thesis
    unfolding res_def by (simp only: fst_conv option.map)
qed

text \<open>
  C10. A live-event record whose decode fails is passed over: \<open>found\<close> stays as it was,
  and the loop goes on from the object as the failed decode has left it, which need not
  be the object it started from. With the strict decoder, the payload
  \<open>{"rewardMultiplier": 7, "bogus": 1}\<close> fails on its unknown key after 7 has been stored.
  Followed by a live event that decodes, it is not counted, and yet the call returns the
  object with 7, with and without the cache; alone, it leaves the call with \<open>(nil, nil)\<close>.
\<close>

theorem skipped_record_leaves_its_writes:
  assumes "dec (EventValue ev) c = (Some e, c')"
  shows "decode_liveEvents dec (ev # rest) (c, found) = decode_liveEvents dec rest (c', found)
    \<and> Decode AchievementsConfig_setField stray_payload (GetConfig achievements)
        = (Some (unknown_field ''bogus''), \<lparr>rewardMultiplier = 7\<rparr>)
    \<and> GetConfig achievements = \<lparr>rewardMultiplier = 1\<rparr>
    \<and> fst (GetValue (Decode AchievementsConfig_setField)
          (answering [] [\<lparr>EventValue = stray_payload\<rparr>, \<lparr>EventValue = empty_payload\<rparr>])
          (NewSatoriPersonalizer True) 0 achievements ''user'')
        = (Some \<lparr>rewardMultiplier = 7\<rparr>, None)
    \<and> fst (GetValue (Decode AchievementsConfig_setField)
          (answering [] [\<lparr>EventValue = stray_payload\<rparr>, \<lparr>EventValue = empty_payload\<rparr>])
          (NewSatoriPersonalizer False) 0 achievements ''user'')
        = (Some \<lparr>rewardMultiplier = 7\<rparr>, None)
    \<and> fst (GetValue (Decode AchievementsConfig_setField)
          (answering [] [\<lparr>EventValue = stray_payload\<rparr>])
          (NewSatoriPersonalizer False) 0 achievements ''user'') = (None, None)"
proof (intro conjI)
  show "decode_liveEvents dec (ev # rest) (c, found) = decode_liveEvents dec rest (c', found)"
    using assms by simp
qed (simp_all add: GetValue_eval Decode_eval fixture_defs)

text \<open>C10 at concrete inputs: the loop on the two live events of the scenario.\<close>

theorem skipped_record_leaves_its_writes_witness:
  "decode_liveEvents (Decode AchievementsConfig_setField)
     [\<lparr>EventValue = stray_payload\<rparr>, \<lparr>EventValue = empty_payload\<rparr>] (\<lparr>rewardMultiplier = 1\<rparr>, False)
   = (\<lparr>rewardMultiplier = 7\<rparr>, True)"
proof -
  let ?dec = "Decode AchievementsConfig_setField"
  have failed: "?dec (EventValue \<lparr>EventValue = stray_payload\<rparr>) \<lparr>rewardMultiplier = 1\<rparr>
      = (Some (unknown_field ''bogus''), \<lparr>rewardMultiplier = 7\<rparr>)"
    by (simp add: Decode_eval)
  have "decode_liveEvents ?dec [\<lparr>EventValue = stray_payload\<rparr>, \<lparr>EventValue = empty_payload\<rparr>]
      (\<lparr>rewardMultiplier = 1\<rparr>, False)
    = decode_liveEvents ?dec [\<lparr>EventValue = empty_payload\<rparr>] (\<lparr>rewardMultiplier = 7\<rparr>, False)"
    using skipped_record_leaves_its_writes[where dec = ?dec, OF failed] by blast
  also have "\<dots> = (\<lparr>rewardMultiplier = 7\<rparr>, True)"
    by (simp add: Decode_eval)
  finally show ?thesis .
qed


text \<open>
  C3, as stated, fails in its middle clause: the decode of a flag payload can fail and
  still have written to the target. For the flag \<open>{"rewardMultiplier": 7, "bogus": 1}\<close>
  the strict decoder returns the error for \<open>bogus\<close> and leaves 7 in the object that
  held 1, while the call returns \<open>nil\<close> and the error.
\<close>

theorem no_config_with_an_error_counterexample:
  "Decode AchievementsConfig_setField stray_payload (GetConfig achievements)
     = (Some (unknown_field ''bogus''), \<lparr>rewardMultiplier = 7\<rparr>)
   \<and> GetConfig achievements = \<lparr>rewardMultiplier = 1\<rparr>
   \<and> fst (GetValue (Decode AchievementsConfig_setField)
         (answering [\<lparr>Name = ''Hiro-Achievements'', Value = stray_payload\<rparr>] [])
         (NewSatoriPersonalizer True) 0 achievements ''user'')
       = (None, Some (unknown_field ''bogus''))"
  by (simp add: GetValue_eval Decode_eval fixture_defs)

text \<open>
  C3, amended. Whenever \<open>GetValue\<close> returns an error it returns a \<open>nil\<close> config with it, so
  no partially merged object is handed to the caller; the object the failed flag decode
  wrote to is dropped, not restored. On the three paths that end in an error: an unknown
  system type returns the error \<open>hiro system type unknown\<close> before any remote call and
  leaves the cache alone; a remote failure other than not-found returns that error and
  leaves the cache alone; a flag payload that fails to decode returns the decoder's
  error.
\<close>

theorem no_config_with_an_error:
  assumes call: "GetValue dec nk p ctx system userID = ((config, err), p', calls)"
  shows "(err \<noteq> None \<longrightarrow> config = None)
    \<and> (flagName_of (GetType system) = None
         \<longrightarrow> (config, err) = (None, Some (NewError ''hiro system type unknown'' 3))
           \<and> p' = p \<and> calls = [])
    \<and> (\<forall>c e. c \<in> set calls \<longrightarrow> failed_with nk c = Some e \<longrightarrow> \<not> is404 e
         \<longrightarrow> (config, err) = (None, Some e) \<and> p' = p)
    \<and> (\<forall>flagName flag rest e c'. flagName_of (GetType system) = Some flagName
         \<longrightarrow> (\<forall>c\<in>set calls. failed_with nk c = None)
         \<longrightarrow> matched_flags (noCache p) flagName (flag_records nk p' ctx userID flagName)
               = flag # rest
         \<longrightarrow> dec (Value flag) (GetConfig system) = (Some e, c')
         \<longrightarrow> (config, err) = (None, Some e))"
proof (intro conjI allI impI)
  assume "err \<noteq> None"
  show "config = None"
  proof (cases "\<forall>c\<in>set calls. failed_with nk c = None")
    case False
    then obtain c e where "c \<in> set calls" "failed_with nk c = Some e" by auto
    from GetValue_cut_short[OF call this] show ?thesis
      by (simp add: remote_failure_def split: if_splits)
  next
    case True
    show ?thesis
    proof (cases "flagName_of (GetType system)")
      case None
      with call show ?thesis by (simp add: GetValue_def)
    next
      case (Some flagName)
      from GetValue_merged[OF call Some True] \<open>err \<noteq> None\<close> show ?thesis
        by (auto simp: finish_def split: sum.splits if_splits)
    qed
  qed
next
  assume "flagName_of (GetType system) = None"
  with call show "(config, err) = (None, Some (NewError ''hiro system type unknown'' 3))"
    "p' = p" "calls = []"
    by (simp_all add: GetValue_def)
next
  fix c e
  assume "c \<in> set calls" "failed_with nk c = Some e" "\<not> is404 e"
  with GetValue_cut_short[OF call] show "(config, err) = (None, Some e)" "p' = p"
    by (simp_all add: remote_failure_def)
next
  fix flagName flag rest e c'
  assume "flagName_of (GetType system) = Some flagName"
    "\<forall>c\<in>set calls. failed_with nk c = None"
    "matched_flags (noCache p) flagName (flag_records nk p' ctx userID flagName) = flag # rest"
    "dec (Value flag) (GetConfig system) = (Some e, c')"
  then show "(config, err) = (None, Some e)"
    using GetValue_flag_rejected[where dec = dec, OF call] by blast
qed

text \<open>
  C3 at concrete inputs: an unknown system type; a flag with an unknown key; a remote
  source that fails with status 503.
\<close>

theorem no_config_with_an_error_witness:
  "fst (GetValue (Decode AchievementsConfig_setField)
     (answering [\<lparr>Name = ''Hiro-Achievements'', Value = stray_payload\<rparr>] [])
     (NewSatoriPersonalizer True) 0
     \<lparr>GetType = SystemTypeOther 99, GetConfig = \<lparr>rewardMultiplier = 1\<rparr>\<rparr> ''user'')
   = (None, Some (NewError ''hiro system type unknown'' 3))
   \<and> fst (GetValue (Decode AchievementsConfig_setField)
     (answering [\<lparr>Name = ''Hiro-Achievements'', Value = stray_payload\<rparr>] [])
     (NewSatoriPersonalizer True) 0 achievements ''user'')
   = (None, Some (unknown_field ''bogus''))
   \<and> fst (GetValue (Decode AchievementsConfig_setField)
     (failing (RemoteError ''503 status code'')) (NewSatoriPersonalizer False) 0 base ''user'')
   = (None, Some (RemoteError ''503 status code''))"
proof -
  let ?dec = "Decode AchievementsConfig_setField"
  let ?flag = "\<lparr>Name = ''Hiro-Achievements'', Value = stray_payload\<rparr>"
  let ?nk = "answering [?flag] []"
  let ?sys = "\<lparr>GetType = SystemTypeOther 99, GetConfig = \<lparr>rewardMultiplier = 1\<rparr>\<rparr>"
  let ?err = "RemoteError ''503 status code''"
  define res1 where "res1 = GetValue ?dec ?nk (NewSatoriPersonalizer True) 0 ?sys ''user''"
  define res2 where "res2 = GetValue ?dec ?nk (NewSatoriPersonalizer True) 0 achievements ''user''"
  define res3 where "res3 = GetValue ?dec (failing ?err) (NewSatoriPersonalizer False) 0 base ''user''"
  have call1: "GetValue ?dec ?nk (NewSatoriPersonalizer True) 0 ?sys ''user''
      = ((fst (fst res1), snd (fst res1)), fst (snd res1), snd (snd res1))"
    by (simp add: res1_def)
  have call2: "GetValue ?dec ?nk (NewSatoriPersonalizer True) 0 achievements ''user''
      = ((fst (fst res2), snd (fst res2)), fst (snd res2), snd (snd res2))"
    by (simp add: res2_def)
  have call3: "GetValue ?dec (failing ?err) (NewSatoriPersonalizer False) 0 base ''user''
      = ((fst (fst res3), snd (fst res3)), fst (snd res3), snd (snd res3))"
    by (simp add: res3_def)
  have unknown: "flagName_of (GetType ?sys) = None"
    by simp
  have one: "(fst (fst res1), snd (fst res1))
      = (None, Some (NewError ''hiro system type unknown'' 3))"
    using no_config_with_an_error[where dec = ?dec, OF call1] unknown by blast
  have rest2: "snd res2 = (NewSatoriPersonalizer True,
      [FlagsListCall 0 ''user'' [''Hiro-Achievements'']])"
    unfolding res2_def by (simp add: GetValue_eval Decode_eval fixture_defs)
  have resolved: "flagName_of (GetType achievements) = Some ''Hiro-Achievements''"
    by (simp add: achievements_def)
  have remote_ok: "\<forall>c\<in>set (snd (snd res2)). failed_with ?nk c = None"
    by (simp add: rest2 failed_with_def answering_def)
  have matched: "matched_flags (noCache (NewSatoriPersonalizer True)) ''Hiro-Achievements''
      (flag_records ?nk (fst (snd res2)) 0 ''user'' ''Hiro-Achievements'') = ?flag # []"
    by (simp add: rest2 matched_flags_def flag_records_def NewSatoriPersonalizer_def
        answering_def)
  have rejected: "?dec (Value ?flag) (GetConfig achievements)
      = (Some (unknown_field ''bogus''), \<lparr>rewardMultiplier = 7\<rparr>)"
    by (simp add: Decode_eval achievements_def)
  have two: "(fst (fst res2), snd (fst res2)) = (None, Some (unknown_field ''bogus''))"
    using no_config_with_an_error[where dec = ?dec, OF call2]
      resolved remote_ok matched rejected
    by blast
  have calls3: "snd (snd res3) = [FlagsListCall 0 ''user'' allFlagNames]"
    unfolding res3_def by (simp add: GetValue_eval fixture_defs)
  have issued: "FlagsListCall 0 ''user'' allFlagNames \<in> set (snd (snd res3))"
    by (simp add: calls3)
  have failed: "failed_with (failing ?err) (FlagsListCall 0 ''user'' allFlagNames) = Some ?err"
    by (simp add: failed_with_def failing_def)
  have hard: "\<not> is404 ?err"
    by (simp add: is404_def)
  have three: "(fst (fst res3), snd (fst res3)) = (None, Some ?err)"
    using no_config_with_an_error[where dec = ?dec, OF call3] issued failed hard
    by blast
  from one two three show ?thesis
    unfolding res1_def res2_def res3_def by (simp add: prod_eq_iff)
qed


text \<open>
  C9. Without the cache, \<open>GetValue\<close> decodes the first record of the answer to the flag
  lookup whatever its name: if the decode fails the call returns its error, and if it
  succeeds the decoded object is returned (after the live events, for the two system
  types that have them). With the cache, the result of a call that no failed remote
  lookup ends first is fixed by the records of the resolved name alone, in their order
  in the entry; records of any other name are never decoded. If one of the records of
  that name fails to decode, and those before it decode, the call returns its error; if
  they all decode, the call returns the object of the last of them with the live events
  decoded onto it, or \<open>(nil, nil)\<close> when there is no such record and no live event
  decodes.
\<close>

theorem first_flag_not_compared:
  assumes resolved: "flagName_of (GetType system) = Some flagName"
    and named: "named = filter (\<lambda>f. Name f = flagName) (flag_records nk p' ctx userID flagName)"
    and evs: "evs = event_records nk p' ctx system userID"
  shows "(noCache p \<longrightarrow> FlagsList nk ctx userID [flagName] = Inr flagList
           \<longrightarrow> Flags flagList = flag # rest
           \<longrightarrow> (\<forall>e c'. dec (Value flag) (GetConfig system) = (Some e, c')
                  \<longrightarrow> fst (GetValue dec nk p ctx system userID) = (None, Some e))
             \<and> (\<forall>c1. dec (Value flag) (GetConfig system) = (None, c1)
                  \<longrightarrow> \<not> needsLiveEvents (GetType system)
                  \<longrightarrow> fst (GetValue dec nk p ctx system userID) = (Some c1, None))
             \<and> (\<forall>c1 l. dec (Value flag) (GetConfig system) = (None, c1)
                  \<longrightarrow> needsLiveEvents (GetType system)
                  \<longrightarrow> LiveEventsList nk ctx userID = Inr l
                  \<longrightarrow> fst (GetValue dec nk p ctx system userID)
                        = (Some (foldl (written dec) c1 (LiveEvents l)), None)))
    \<and> (\<not> noCache p \<longrightarrow> GetValue dec nk p ctx system userID = (r, p', calls)
           \<longrightarrow> (\<forall>c\<in>set calls. failed_with nk c = None)
           \<longrightarrow> (\<forall>before f later e c'. named = before @ f # later
                  \<longrightarrow> (\<forall>g\<in>set before. fst (dec (Value g) (GetConfig system)) = None)
                  \<longrightarrow> dec (Value f) (GetConfig system) = (Some e, c')
                  \<longrightarrow> r = (None, Some e))
             \<and> ((\<forall>f\<in>set named. fst (dec (Value f) (GetConfig system)) = None)
                  \<longrightarrow> r = (if named \<noteq> []
                               \<or> (\<exists>i<length evs.
                                     decodes_ok dec (after_flags dec system named) evs i)
                            then (Some (foldl (written dec) (after_flags dec system named) evs),
                                  None)
                            else (None, None))))"
proof -
  have first_rejected: "fst (GetValue dec nk p ctx system userID) = (None, Some e)"
    if "noCache p" "FlagsList nk ctx userID [flagName] = Inr flagList"
      "Flags flagList = flag # rest" "dec (Value flag) (GetConfig system) = (Some e, c')"
    for e c'
    using that resolved
    by (simp add: GetValue_def GetValue_noCache_def decode_first_flag_def)
  have first_alone: "fst (GetValue dec nk p ctx system userID) = (Some c1, None)"
    if "noCache p" "FlagsList nk ctx userID [flagName] = Inr flagList"
      "Flags flagList = flag # rest" "dec (Value flag) (GetConfig system) = (None, c1)"
      "\<not> needsLiveEvents (GetType system)"
    for c1
    using that resolved
    by (simp add: GetValue_def GetValue_noCache_def decode_first_flag_def finish_def)
  have first_then_events: "fst (GetValue dec nk p ctx system userID)
      = (Some (foldl (written dec) c1 (LiveEvents l)), None)"
    if a: "noCache p" "FlagsList nk ctx userID [flagName] = Inr flagList"
      "Flags flagList = flag # rest" "dec (Value flag) (GetConfig system) = (None, c1)"
      "needsLiveEvents (GetType system)" "LiveEventsList nk ctx userID = Inr l"
    for c1 l
  proof -
    have "finish (apply_liveEvents dec system (LiveEvents l) (Some c1, True))
        = (Some (foldl (written dec) c1 (LiveEvents l)), None)"
    proof (cases "LiveEvents l")
      case Nil
      then show ?thesis by (simp add: apply_liveEvents_Nil finish_def)
    next
      case (Cons ev more_evs)
      then have "LiveEvents l \<noteq> []" by simp
      then show ?thesis
        by (simp add: apply_liveEvents_eq[where dec = dec] finish_def)
    qed
    with a show ?thesis
      using resolved by (simp add: GetValue_def GetValue_noCache_def decode_first_flag_def)
  qed
  have named_rejected: "r = (None, Some e)"
    if caching: "\<not> noCache p"
      and call: "GetValue dec nk p ctx system userID = (r, p', calls)"
      and remote_ok: "\<forall>c\<in>set calls. failed_with nk c = None"
      and split: "named = before @ f # later"
      and before_ok: "\<forall>g\<in>set before. fst (dec (Value g) (GetConfig system)) = None"
      and rejected: "dec (Value f) (GetConfig system) = (Some e, c')"
    for before f later e c'
  proof -
    have names: "\<forall>g\<in>set named. Name g = flagName"
      unfolding named by simp
    have b: "\<forall>g\<in>set before. Name g = flagName \<and> fst (dec (Value g) (GetConfig system)) = None"
      using names before_ok split by simp
    have n: "Name f = flagName"
      using names split by simp
    have "decode_flags dec system flagName (flag_records nk p' ctx userID flagName) (None, False)
        = decode_flags dec system flagName named (None, False)"
      unfolding named by (rule decode_flags_filter)
    also have "\<dots> = Inl e"
      unfolding split
      by (rule decode_flags_first_failure[where dec = dec and system = system, OF b n rejected])
    finally show ?thesis
      using GetValue_merged[OF call resolved remote_ok] caching by simp
  qed
  have named_decoded: "r = (if named \<noteq> []
        \<or> (\<exists>i<length evs. decodes_ok dec (after_flags dec system named) evs i)
      then (Some (foldl (written dec) (after_flags dec system named) evs), None)
      else (None, None))"
    if caching: "\<not> noCache p"
      and call: "GetValue dec nk p ctx system userID = (r, p', calls)"
      and remote_ok: "\<forall>c\<in>set calls. failed_with nk c = None"
      and all_ok: "\<forall>f\<in>set named. fst (dec (Value f) (GetConfig system)) = None"
  proof -
    have m: "named = matched_flags (noCache p) flagName (flag_records nk p' ctx userID flagName)"
      using caching named by (simp add: matched_flags_def)
    have ok: "\<forall>f\<in>set (matched_flags (noCache p) flagName
        (flag_records nk p' ctx userID flagName)). fst (dec (Value f) (GetConfig system)) = None"
      using all_ok m by simp
    show ?thesis
      by (rule GetValue_personalized[where dec = dec, OF call resolved remote_ok ok m evs])
  qed
  from first_rejected first_alone first_then_events named_rejected named_decoded
  show ?thesis
    by blast
qed

text \<open>
  C9 at concrete inputs: the Base system and a remote source that answers, whatever it
  is asked for, with the flag \<open>Hiro-Economy\<close>, whose payload has an unknown key, followed
  by the flag \<open>Hiro-Base\<close>. Without the cache the first record is decoded and its error
  returned; with the cache it is passed over and the flag \<open>Hiro-Base\<close> is merged.
\<close>

theorem first_flag_not_compared_witness:
  "fst (GetValue (Decode AchievementsConfig_setField)
     (answering_anyway [\<lparr>Name = ''Hiro-Economy'', Value = stray_payload\<rparr>,
        \<lparr>Name = ''Hiro-Base'', Value = flag_payload\<rparr>] [])
     (NewSatoriPersonalizer True) 0 base ''user'') = (None, Some (unknown_field ''bogus''))
   \<and> fst (GetValue (Decode AchievementsConfig_setField)
     (answering_anyway [\<lparr>Name = ''Hiro-Economy'', Value = stray_payload\<rparr>,
        \<lparr>Name = ''Hiro-Base'', Value = flag_payload\<rparr>] [])
     (NewSatoriPersonalizer False) 0 base ''user'') = (Some \<lparr>rewardMultiplier = 2\<rparr>, None)"
proof -
  let ?dec = "Decode AchievementsConfig_setField"
  let ?other = "\<lparr>Name = ''Hiro-Economy'', Value = stray_payload\<rparr>"
  let ?own = "\<lparr>Name = ''Hiro-Base'', Value = flag_payload\<rparr>"
  let ?nk = "answering_anyway [?other, ?own] []"
  define res where "res = GetValue ?dec ?nk (NewSatoriPersonalizer False) 0 base ''user''"
  have resolved: "flagName_of (GetType base) = Some ''Hiro-Base''"
    by (simp add: base_def)
  have rest: "snd res = (\<lparr>noCache = False,
       cache = [0 \<mapsto> \<lparr>flags = \<lparr>Flags = [?other, ?own]\<rparr>, liveEvents = None\<rparr>]\<rparr>,
      [FlagsListCall 0 ''user'' allFlagNames])"
    unfolding res_def by (simp add: GetValue_eval Decode_eval fixture_defs)
  have named: "[?own] = filter (\<lambda>f. Name f = ''Hiro-Base'')
      (flag_records ?nk (fst (snd res)) 0 ''user'' ''Hiro-Base'')"
    by (simp add: rest flag_records_def)
  have evs: "[] = event_records ?nk (fst (snd res)) 0 base ''user''"
    by (simp add: rest event_records_def)
  note th = first_flag_not_compared[where dec = ?dec and nk = ?nk and ctx = 0
      and userID = "''user''", OF resolved named evs]
  have direct: "noCache (NewSatoriPersonalizer True)"
    by (simp add: NewSatoriPersonalizer_def)
  have answer: "FlagsList ?nk 0 ''user'' [''Hiro-Base''] = Inr \<lparr>Flags = [?other, ?own]\<rparr>"
    by (simp add: answering_anyway_def)
  have first: "Flags \<lparr>Flags = [?other, ?own]\<rparr> = ?other # [?own]"
    by simp
  have rejected: "?dec (Value ?other) (GetConfig base)
      = (Some (unknown_field ''bogus''), \<lparr>rewardMultiplier = 7\<rparr>)"
    by (simp add: Decode_eval base_def)
  have one: "fst (GetValue ?dec ?nk (NewSatoriPersonalizer True) 0 base ''user'')
      = (None, Some (unknown_field ''bogus''))"
    using th[where p = "NewSatoriPersonalizer True"] direct answer first rejected
    by blast
  have caching: "\<not> noCache (NewSatoriPersonalizer False)"
    by (simp add: NewSatoriPersonalizer_def)
  have call: "GetValue ?dec ?nk (NewSatoriPersonalizer False) 0 base ''user''
      = (fst res, fst (snd res), snd (snd res))"
    by (simp add: res_def)
  have remote_ok: "\<forall>c\<in>set (snd (snd res)). failed_with ?nk c = None"
    by (simp add: rest failed_with_def answering_anyway_def)
  have decoded: "\<forall>f\<in>set [?own]. fst (?dec (Value f) (GetConfig base)) = None"
    by (simp add: Decode_eval base_def)
  have merged: "after_flags ?dec base [?own] = \<lparr>rewardMultiplier = 2\<rparr>"
    by (simp add: after_flags_def Decode_eval base_def)
  have "fst res = (if [?own] \<noteq> []
        \<or> (\<exists>i<length ([] :: LiveEvent list). decodes_ok ?dec (after_flags ?dec base [?own]) [] i)
      then (Some (foldl (written ?dec) (after_flags ?dec base [?own]) []), None)
      else (None, None))"
    using th[where p = "NewSatoriPersonalizer False"] caching call remote_ok decoded
    by blast
  then have two: "fst res = (Some \<lparr>rewardMultiplier = 2\<rparr>, None)"
    by (simp add: merged)
  from one two show ?thesis
    unfolding res_def by simp
qed

text \<open>
  C5, as stated, fails: with the cache, a remote source that answers every call with the
  error \<open>500 status code\<close> is asked for the flags by each of two consecutive calls on the
  same context, twice in all. A call that fails stores no entry.
\<close>

theorem flag_fetches_counterexample:
  "length (filter is_FlagsListCall
     (snd (snd (GetValue (Decode AchievementsConfig_setField)
                  (failing (RemoteError ''500 status code''))
                  (NewSatoriPersonalizer False) 0 achievements ''user''))
      @ snd (snd (GetValue (Decode AchievementsConfig_setField)
                  (failing (RemoteError ''500 status code''))
                  (fst (snd (GetValue (Decode AchievementsConfig_setField)
                     (failing (RemoteError ''500 status code''))
                     (NewSatoriPersonalizer False) 0 achievements ''user'')))
                  0 achievements ''user'')))) = 2"
  by (simp add: GetValue_eval fixture_defs)

text \<open>The sweep leaves the entry of a context that has not ended, and the flag lookups
  of the caching branch.\<close>

lemma sweeps_kept:
  assumes "\<forall>ctxErr\<in>set ticks. \<not> ctxErr ctx"
  shows "cache (sweeps ticks s) ctx = cache s ctx \<and> noCache (sweeps ticks s) = noCache s"
  using assms
proof (induction ticks arbitrary: s)
  case Nil
  show ?case by simp
next
  case (Cons tick ticks)
  have here: "\<not> tick ctx" and later: "\<forall>ctxErr\<in>set ticks. \<not> ctxErr ctx"
    using Cons.prems by auto
  have "cache (sweep tick s) ctx = cache s ctx" "noCache (sweep tick s) = noCache s"
    using here by (simp_all add: sweep_def)
  with Cons.IH[OF later, of "sweep tick s"] show ?case by simp
qed

lemma GetValue_cached_calls:
  assumes "GetValue_cached dec nk p ctx system userID flagName = (r, p', calls)"
  shows "(cache p ctx \<noteq> None \<longrightarrow> filter is_FlagsListCall calls = [])
    \<and> length (filter is_FlagsListCall calls) \<le> 1
    \<and> (\<forall>c\<in>set calls. is_FlagsListCall c \<longrightarrow> c = FlagsListCall ctx userID allFlagNames)
    \<and> ((\<forall>c\<in>set calls. failed_with nk c = None) \<longrightarrow> cache p' ctx \<noteq> None)"
  using assms
  by (cases rule: GetValue_cached_paths) (simp_all add: failed_with_def)

text \<open>
  C5, amended. Two consecutive calls on the same context and user, with any two system
  types, any number of sweep ticks in between and any answers of the remote source.
  With the cache: if no remote lookup of the first call fails and the context has not
  ended at any of the ticks, the two calls together fetch the flags at most once, and
  every flag fetch asks for all the known flag names in one call. Without the cache:
  every call whose system type is known fetches the flags exactly once, asking for the
  one resolved name, and leaves the personalizer, hence its cache, as it was.
\<close>

theorem flag_fetches:
  assumes call1: "GetValue dec nk1 p ctx system1 userID = (r1, p1, calls1)"
    and call2: "GetValue dec nk2 (sweeps ticks p1) ctx system2 userID = (r2, p2, calls2)"
  shows "(\<not> noCache p \<longrightarrow> (\<forall>c\<in>set calls1. failed_with nk1 c = None)
           \<longrightarrow> (\<forall>ctxErr\<in>set ticks. \<not> ctxErr ctx)
           \<longrightarrow> length (filter is_FlagsListCall (calls1 @ calls2)) \<le> 1
             \<and> (\<forall>c\<in>set (calls1 @ calls2). is_FlagsListCall c
                   \<longrightarrow> c = FlagsListCall ctx userID allFlagNames))
    \<and> (noCache p \<longrightarrow> p1 = p
           \<and> (\<forall>flagName. flagName_of (GetType system1) = Some flagName
                 \<longrightarrow> filter is_FlagsListCall calls1 = [FlagsListCall ctx userID [flagName]]))"
proof -
  have with_cache: "length (filter is_FlagsListCall (calls1 @ calls2)) \<le> 1
      \<and> (\<forall>c\<in>set (calls1 @ calls2). is_FlagsListCall c
            \<longrightarrow> c = FlagsListCall ctx userID allFlagNames)"
    if caching: "\<not> noCache p"
      and remote_ok: "\<forall>c\<in>set calls1. failed_with nk1 c = None"
      and active: "\<forall>ctxErr\<in>set ticks. \<not> ctxErr ctx"
  proof -
  have kept1: "noCache p1 = noCache p"
    by (rule GetValue_noCache_kept[OF call1])
  note mid = sweeps_kept[OF active, of p1]
  have caching2: "\<not> noCache (sweeps ticks p1)"
    using mid kept1 caching by simp
  have second: "length (filter is_FlagsListCall calls2) \<le> 1
      \<and> (\<forall>c\<in>set calls2. is_FlagsListCall c \<longrightarrow> c = FlagsListCall ctx userID allFlagNames)
      \<and> (cache p1 ctx \<noteq> None \<longrightarrow> filter is_FlagsListCall calls2 = [])"
    using call2
  proof (cases rule: GetValue_paths)
    case unknown
    then show ?thesis by simp
  next
    case (direct flagName)
    with caching2 show ?thesis by simp
  next
    case (caching flagName)
    from GetValue_cached_calls[OF caching(3)] mid show ?thesis by simp
  qed
  have first: "length (filter is_FlagsListCall calls1) \<le> 1
      \<and> (\<forall>c\<in>set calls1. is_FlagsListCall c \<longrightarrow> c = FlagsListCall ctx userID allFlagNames)
      \<and> (calls1 = [] \<or> cache p1 ctx \<noteq> None)"
    using call1
  proof (cases rule: GetValue_paths)
    case unknown
    then show ?thesis by simp
  next
    case (direct flagName)
    with \<open>\<not> noCache p\<close> show ?thesis by simp
  next
    case (caching flagName)
    from GetValue_cached_calls[OF caching(3)] remote_ok show ?thesis by simp
  qed
    from first second show ?thesis
      by auto
  qed
  have without_cache: "p1 = p
    \<and> (\<forall>flagName. flagName_of (GetType system1) = Some flagName
          \<longrightarrow> filter is_FlagsListCall calls1 = [FlagsListCall ctx userID [flagName]])"
    if "noCache p"
    using call1
  proof (cases rule: GetValue_paths)
    case unknown
    then show ?thesis by simp
  next
    case (direct flagName)
    from direct(3) have "filter is_FlagsListCall calls1 = [FlagsListCall ctx userID [flagName]]"
      by (cases rule: GetValue_noCache_paths) simp_all
    with direct show ?thesis by simp
  next
    case (caching flagName)
    with \<open>noCache p\<close> show ?thesis by simp
  qed
  from with_cache without_cache show ?thesis
    by blast
qed


text \<open>
  C5 at concrete inputs: with the cache, a call for the Base system, a tick at which
  only another context has ended, and a call for the Achievements system, which fetches
  no flags; without the cache, a call for the Achievements system.
\<close>

theorem flag_fetches_witness:
  "filter is_FlagsListCall
     (snd (snd (GetValue (Decode AchievementsConfig_setField)
        (answering [\<lparr>Name = ''Hiro-Achievements'', Value = flag_payload\<rparr>] [])
        (sweeps [only_ended 1]
           (fst (snd (GetValue (Decode AchievementsConfig_setField)
              (answering [\<lparr>Name = ''Hiro-Achievements'', Value = flag_payload\<rparr>] [])
              (NewSatoriPersonalizer False) 0 base ''user''))))
        0 achievements ''user''))) = []
   \<and> filter is_FlagsListCall
     (snd (snd (GetValue (Decode AchievementsConfig_setField)
        (answering [\<lparr>Name = ''Hiro-Achievements'', Value = flag_payload\<rparr>] [])
        (NewSatoriPersonalizer True) 0 achievements ''user'')))
     = [FlagsListCall 0 ''user'' [''Hiro-Achievements'']]"
proof -
  let ?dec = "Decode AchievementsConfig_setField"
  let ?nk = "answering [\<lparr>Name = ''Hiro-Achievements'', Value = flag_payload\<rparr>] []"
  define res1 where "res1 = GetValue ?dec ?nk (NewSatoriPersonalizer False) 0 base ''user''"
  define res2 where
    "res2 = GetValue ?dec ?nk (sweeps [only_ended 1] (fst (snd res1))) 0 achievements ''user''"
  define res3 where
    "res3 = GetValue ?dec ?nk (NewSatoriPersonalizer True) 0 achievements ''user''"
  define res4 where
    "res4 = GetValue ?dec ?nk (sweeps [] (fst (snd res3))) 0 achievements ''user''"
  have call1: "GetValue ?dec ?nk (NewSatoriPersonalizer False) 0 base ''user''
      = (fst res1, fst (snd res1), snd (snd res1))"
    by (simp add: res1_def)
  have call2: "GetValue ?dec ?nk (sweeps [only_ended 1] (fst (snd res1))) 0 achievements ''user''
      = (fst res2, fst (snd res2), snd (snd res2))"
    by (simp add: res2_def)
  have call3: "GetValue ?dec ?nk (NewSatoriPersonalizer True) 0 achievements ''user''
      = (fst res3, fst (snd res3), snd (snd res3))"
    by (simp add: res3_def)
  have call4: "GetValue ?dec ?nk (sweeps [] (fst (snd res3))) 0 achievements ''user''
      = (fst res4, fst (snd res4), snd (snd res4))"
    by (simp add: res4_def)
  have calls1: "snd (snd res1) = [FlagsListCall 0 ''user'' allFlagNames]"
    unfolding res1_def by (simp add: GetValue_eval Decode_eval fixture_defs)
  have caching: "\<not> noCache (NewSatoriPersonalizer False)"
    by (simp add: NewSatoriPersonalizer_def)
  have remote_ok: "\<forall>c\<in>set (snd (snd res1)). failed_with ?nk c = None"
    by (simp add: calls1 failed_with_def answering_def)
  have active: "\<forall>ctxErr\<in>set [only_ended 1]. \<not> ctxErr (0::nat)"
    by (simp add: only_ended_def)
  have "length (filter is_FlagsListCall (snd (snd res1) @ snd (snd res2))) \<le> 1"
    using flag_fetches[OF call1 call2] caching remote_ok active by blast
  then have one: "filter is_FlagsListCall (snd (snd res2)) = []"
    by (simp add: calls1)
  have direct: "noCache (NewSatoriPersonalizer True)"
    by (simp add: NewSatoriPersonalizer_def)
  have resolved: "flagName_of (GetType achievements) = Some ''Hiro-Achievements''"
    by (simp add: achievements_def)
  have two: "filter is_FlagsListCall (snd (snd res3))
      = [FlagsListCall 0 ''user'' [''Hiro-Achievements'']]"
    using flag_fetches[OF call3 call4] direct resolved by blast
  from one two show ?thesis
    unfolding res1_def res2_def res3_def by simp
qed


text \<open>The live-event lookups and the cache of either branch.\<close>

lemma GetValue_cached_entry:
  assumes "GetValue_cached dec nk p ctx system userID flagName = (r, p', calls)"
  shows "(\<forall>c\<in>set calls. is_LiveEventsListCall c
            \<longrightarrow> c = LiveEventsListCall ctx userID \<and> needsLiveEvents (GetType system))
    \<and> length (filter is_LiveEventsListCall calls) \<le> 1
    \<and> (\<forall>e l. cache p ctx = Some e \<longrightarrow> liveEvents e = Some l
          \<longrightarrow> cache p' ctx = Some e \<and> filter is_LiveEventsListCall calls = [])
    \<and> (\<forall>e. cache p ctx = Some e \<longrightarrow> (\<exists>e'. cache p' ctx = Some e' \<and> flags e' = flags e))
    \<and> (\<forall>ctx'. ctx' \<noteq> ctx \<longrightarrow> cache p' ctx' = cache p ctx')
    \<and> (needsLiveEvents (GetType system)
         \<longrightarrow> (cache p ctx = None
               \<longrightarrow> failed_with nk (FlagsListCall ctx userID allFlagNames) = None)
         \<longrightarrow> (\<forall>e. cache p ctx = Some e \<longrightarrow> liveEvents e = None)
         \<longrightarrow> LiveEventsListCall ctx userID \<in> set calls)"
  using assms
  by (cases rule: GetValue_cached_paths) (simp_all add: failed_with_def)

lemma GetValue_noCache_live:
  assumes "GetValue_noCache dec nk ctx system userID flagName = (r, calls)"
  shows "(\<forall>c\<in>set calls. is_LiveEventsListCall c
            \<longrightarrow> c = LiveEventsListCall ctx userID \<and> needsLiveEvents (GetType system))
    \<and> length (filter is_LiveEventsListCall calls) \<le> 1
    \<and> (needsLiveEvents (GetType system)
         \<longrightarrow> failed_with nk (FlagsListCall ctx userID [flagName]) = None
         \<longrightarrow> (\<forall>flagList. FlagsList nk ctx userID [flagName] = Inr flagList
               \<longrightarrow> (\<forall>flag\<in>set (take 1 (Flags flagList)).
                     fst (dec (Value flag) (GetConfig system)) = None))
         \<longrightarrow> LiveEventsListCall ctx userID \<in> set calls)"
  using assms
  by (cases rule: GetValue_noCache_paths)
    (auto simp: failed_with_def decode_first_flag_def split: list.splits prod.splits option.splits)


lemma needs_resolved:
  "needsLiveEvents t \<Longrightarrow> flagName_of t \<noteq> None"
  by (auto simp: needsLiveEvents_def)

text \<open>
  C7. A call of \<open>GetValue\<close> asks for the live events at most once, and only when the
  system type is EventLeaderboards or Achievements. For these two types it does ask
  whenever it gets as far as the live-event step with nothing cached: without the
  cache, when the flag lookup has not failed and the first flag, if any, has decoded;
  with the cache, when the flag lookup of a miss has not failed and the entry of a hit
  has no live events yet. An entry whose live events are set is left exactly as it is
  and, with the cache, no live events are fetched for it again; the flags of an entry
  never change; the entries of other contexts are not touched; and a sweep only removes
  entries.
\<close>

theorem live_events_fetched:
  assumes call: "GetValue dec nk p ctx system userID = (r, p', calls)"
  shows "(\<forall>c\<in>set calls. is_LiveEventsListCall c
            \<longrightarrow> c = LiveEventsListCall ctx userID
              \<and> (GetType system = SystemTypeEventLeaderboards
                 \<or> GetType system = SystemTypeAchievements))
    \<and> length (filter is_LiveEventsListCall calls) \<le> 1
    \<and> (GetType system = SystemTypeEventLeaderboards \<or> GetType system = SystemTypeAchievements
         \<longrightarrow> noCache p
         \<longrightarrow> (\<forall>flagName. flagName_of (GetType system) = Some flagName
               \<longrightarrow> failed_with nk (FlagsListCall ctx userID [flagName]) = None
                 \<and> (\<forall>flagList. FlagsList nk ctx userID [flagName] = Inr flagList
                       \<longrightarrow> (\<forall>flag\<in>set (take 1 (Flags flagList)).
                             fst (dec (Value flag) (GetConfig system)) = None)))
         \<longrightarrow> LiveEventsListCall ctx userID \<in> set calls)
    \<and> (GetType system = SystemTypeEventLeaderboards \<or> GetType system = SystemTypeAchievements
         \<longrightarrow> \<not> noCache p
         \<longrightarrow> (cache p ctx = None
               \<longrightarrow> failed_with nk (FlagsListCall ctx userID allFlagNames) = None)
         \<longrightarrow> (\<forall>e. cache p ctx = Some e \<longrightarrow> liveEvents e = None)
         \<longrightarrow> LiveEventsListCall ctx userID \<in> set calls)
    \<and> (\<forall>e l. cache p ctx = Some e \<longrightarrow> liveEvents e = Some l
          \<longrightarrow> cache p' ctx = Some e
            \<and> (\<not> noCache p \<longrightarrow> filter is_LiveEventsListCall calls = []))
    \<and> (\<forall>e. cache p ctx = Some e \<longrightarrow> (\<exists>e'. cache p' ctx = Some e' \<and> flags e' = flags e))
    \<and> (\<forall>ctx'. ctx' \<noteq> ctx \<longrightarrow> cache p' ctx' = cache p ctx')
    \<and> (\<forall>ctxErr c e. cache (sweep ctxErr p) c = Some e \<longrightarrow> cache p c = Some e)"
  using call
proof (cases rule: GetValue_paths)
  case unknown
  then have "\<not> needsLiveEvents (GetType system)"
    using needs_resolved by blast
  with unknown show ?thesis
    by (auto simp: needsLiveEvents_def sweep_def split: if_splits)
next
  case (direct flagName)
  note live = GetValue_noCache_live[OF direct(3)]
  have swept: "\<forall>ctxErr c e. cache (sweep ctxErr p) c = Some e \<longrightarrow> cache p c = Some e"
    by (auto simp: sweep_def split: if_splits)
  have a: "\<forall>c\<in>set calls. is_LiveEventsListCall c
            \<longrightarrow> c = LiveEventsListCall ctx userID
              \<and> (GetType system = SystemTypeEventLeaderboards
                 \<or> GetType system = SystemTypeAchievements)"
    using live by (simp add: needsLiveEvents_def)
  have b: "length (filter is_LiveEventsListCall calls) \<le> 1"
    using live by simp
  have c: "GetType system = SystemTypeEventLeaderboards \<or> GetType system = SystemTypeAchievements
         \<longrightarrow> (\<forall>flagName. flagName_of (GetType system) = Some flagName
               \<longrightarrow> failed_with nk (FlagsListCall ctx userID [flagName]) = None
                 \<and> (\<forall>flagList. FlagsList nk ctx userID [flagName] = Inr flagList
                       \<longrightarrow> (\<forall>flag\<in>set (take 1 (Flags flagList)).
                             fst (dec (Value flag) (GetConfig system)) = None)))
         \<longrightarrow> LiveEventsListCall ctx userID \<in> set calls"
    using live direct(1) by (simp add: needsLiveEvents_def)
  from a b c swept direct(2,4) show ?thesis
    by simp
next
  case (caching flagName)
  note entry = GetValue_cached_entry[OF caching(3)]
  have swept: "\<forall>ctxErr c e. cache (sweep ctxErr p) c = Some e \<longrightarrow> cache p c = Some e"
    by (auto simp: sweep_def split: if_splits)
  have a: "\<forall>c\<in>set calls. is_LiveEventsListCall c
            \<longrightarrow> c = LiveEventsListCall ctx userID
              \<and> (GetType system = SystemTypeEventLeaderboards
                 \<or> GetType system = SystemTypeAchievements)"
    using entry by (simp add: needsLiveEvents_def)
  have c: "GetType system = SystemTypeEventLeaderboards \<or> GetType system = SystemTypeAchievements
         \<longrightarrow> (cache p ctx = None
               \<longrightarrow> failed_with nk (FlagsListCall ctx userID allFlagNames) = None)
         \<longrightarrow> (\<forall>e. cache p ctx = Some e \<longrightarrow> liveEvents e = None)
         \<longrightarrow> LiveEventsListCall ctx userID \<in> set calls"
    using entry by (simp add: needsLiveEvents_def)
  from a c entry swept caching(2) show ?thesis
    by simp
qed


text \<open>
  C7 at concrete inputs: with the cache, a first call for the Achievements system, which
  fetches the live events, and a second call on the same context, which does not.
\<close>

theorem live_events_fetched_witness:
  "LiveEventsListCall 0 ''user''
     \<in> set (snd (snd (GetValue (Decode AchievementsConfig_setField)
          (answering [] [\<lparr>EventValue = event_payload\<rparr>])
          (NewSatoriPersonalizer False) 0 achievements ''user'')))
   \<and> filter is_LiveEventsListCall
       (snd (snd (GetValue (Decode AchievementsConfig_setField)
          (answering [] [\<lparr>EventValue = event_payload\<rparr>])
          (fst (snd (GetValue (Decode AchievementsConfig_setField)
             (answering [] [\<lparr>EventValue = event_payload\<rparr>])
             (NewSatoriPersonalizer False) 0 achievements ''user'')))
          0 achievements ''user''))) = []"
proof -
  let ?dec = "Decode AchievementsConfig_setField"
  let ?nk = "answering [] [\<lparr>EventValue = event_payload\<rparr>]"
  let ?entry = "\<lparr>flags = \<lparr>Flags = []\<rparr>,
    liveEvents = Some \<lparr>LiveEvents = [\<lparr>EventValue = event_payload\<rparr>]\<rparr>\<rparr>"
  define res1 where
    "res1 = GetValue ?dec ?nk (NewSatoriPersonalizer False) 0 achievements ''user''"
  define res2 where "res2 = GetValue ?dec ?nk (fst (snd res1)) 0 achievements ''user''"
  have call1: "GetValue ?dec ?nk (NewSatoriPersonalizer False) 0 achievements ''user''
      = (fst res1, fst (snd res1), snd (snd res1))"
    by (simp add: res1_def)
  have call2: "GetValue ?dec ?nk (fst (snd res1)) 0 achievements ''user''
      = (fst res2, fst (snd res2), snd (snd res2))"
    by (simp add: res2_def)
  have type: "GetType achievements = SystemTypeEventLeaderboards
      \<or> GetType achievements = SystemTypeAchievements"
    by (simp add: achievements_def)
  have caching: "\<not> noCache (NewSatoriPersonalizer False)"
    by (simp add: NewSatoriPersonalizer_def)
  have fetched: "cache (NewSatoriPersonalizer False) (0::nat) = None
      \<longrightarrow> failed_with ?nk (FlagsListCall 0 ''user'' allFlagNames) = None"
    by (simp add: failed_with_def answering_def)
  have unset: "\<forall>e. cache (NewSatoriPersonalizer False) (0::nat) = Some e \<longrightarrow> liveEvents e = None"
    by (simp add: NewSatoriPersonalizer_def)
  have one: "LiveEventsListCall 0 ''user'' \<in> set (snd (snd res1))"
    using live_events_fetched[OF call1] type caching fetched unset by blast
  have p1: "fst (snd res1) = \<lparr>noCache = False, cache = [0 \<mapsto> ?entry]\<rparr>"
    unfolding res1_def by (simp add: GetValue_eval Decode_eval fixture_defs)
  have stored: "cache (fst (snd res1)) 0 = Some ?entry"
    by (simp add: p1)
  have set: "liveEvents ?entry = Some \<lparr>LiveEvents = [\<lparr>EventValue = event_payload\<rparr>]\<rparr>"
    by simp
  have caching1: "\<not> noCache (fst (snd res1))"
    by (simp add: p1)
  have two: "filter is_LiveEventsListCall (snd (snd res2)) = []"
    using live_events_fetched[OF call2] stored set caching1 by blast
  from one two show ?thesis
    unfolding res1_def res2_def by simp
qed


end
